theory Spec2Isabelle
  imports Complex_Main
begin

section \<open>Pixel Arcade: a shallow embedding of \<open>app.js\<close>\<close>

text \<open>
  The three minigames of \<open>app.js\<close> are closures over mutable variables. Each closure
  is modelled by a record of its variables, and each inner function by a function from
  record to record. JavaScript numbers are modelled by exact numbers: \<open>real\<close> for
  quantities that take fractional values (timestamps, speed, score, bits), \<open>int\<close> for
  values that the code only ever produces as whole numbers by \<open>Math.floor\<close> or by
  counting, and \<open>nat\<close> for counters that start at \<open>0\<close> and are only incremented.
  Rounding of IEEE doubles is not modelled. Every call of \<open>Math.random()\<close> is an
  explicit argument. Calls that only touch the page (drawing, DOM rendering, badge
  refresh, frame requests) are recorded, in order, in a trace of effects.
\<close>

subsection \<open>Utilities\<close>

text \<open>\<^verbatim>\<open>const clamp = (v, a, b) => Math.max(a, Math.min(b, v));\<close>\<close>

definition clamp :: "'a::linorder \<Rightarrow> 'a \<Rightarrow> 'a \<Rightarrow> 'a" where
  "clamp v a b = max a (min b v)"

datatype effect =
    Draw real          \<comment> \<open>Byte Runner's \<open>draw(dt)\<close>\<close>
  | Render             \<comment> \<open>an engine's DOM \<open>render()\<close>\<close>
  | Save               \<comment> \<open>Neon Clicker's \<open>save()\<close>\<close>
  | RefreshMenuBadges  \<comment> \<open>\<open>refreshMenuBadges()\<close>\<close>
  | RequestFrame       \<comment> \<open>\<open>requestAnimationFrame(loop)\<close>\<close>
  | CancelFrame        \<comment> \<open>\<open>cancelAnimationFrame(raf)\<close>\<close>

subsection \<open>Persistent store\<close>

text \<open>
  \<open>localStorage\<close> and \<open>JSON\<close> belong to the browser, not to \<open>app.js\<close>. The storage is
  modelled by its items together with the two ways it fails: access is refused altogether
  (\<open>disabled\<close>, every call throws), or a write exceeds the remaining room (\<open>quota\<close>,
  \<open>setItem\<close> throws). \<open>JSON.parse\<close> and \<open>JSON.stringify\<close> are parameters of the store
  functions; \<open>None\<close> stands for a thrown exception.
\<close>

datatype js_error = SecurityError | QuotaExceededError | SyntaxError | TypeError

record local_storage =
  items :: "string \<rightharpoonup> string"
  disabled :: bool
  quota :: nat

definition getItem :: "local_storage \<Rightarrow> string \<Rightarrow> js_error + string option" where
  "getItem ls key = (if disabled ls then Inl SecurityError else Inr (items ls key))"

definition setItem :: "local_storage \<Rightarrow> string \<Rightarrow> string \<Rightarrow> js_error + local_storage" where
  "setItem ls key txt =
     (if disabled ls then Inl SecurityError
      else if quota ls < length txt then Inl QuotaExceededError
      else Inr (ls\<lparr>items := (items ls)(key \<mapsto> txt)\<rparr>))"

text \<open>
  The body of the \<open>try\<close> block of \<open>store.get\<close>:
  \<^verbatim>\<open>const raw = localStorage.getItem(key); return raw ? JSON.parse(raw) : fallback;\<close>
  A string is truthy exactly when it is not empty.
\<close>

definition store_get_try ::
  "(string \<Rightarrow> 'v option) \<Rightarrow> local_storage \<Rightarrow> string \<Rightarrow> 'v \<Rightarrow> js_error + 'v" where
  "store_get_try parse ls key fallback =
     (case getItem ls key of
        Inl e \<Rightarrow> Inl e
      | Inr None \<Rightarrow> Inr fallback
      | Inr (Some raw) \<Rightarrow>
          (if raw = [] then Inr fallback
           else (case parse raw of None \<Rightarrow> Inl SyntaxError | Some v \<Rightarrow> Inr v)))"

text \<open>\<open>store.get\<close>: the \<open>catch\<close> clause turns every exception into the fallback.\<close>

definition store_get ::
  "(string \<Rightarrow> 'v option) \<Rightarrow> local_storage \<Rightarrow> string \<Rightarrow> 'v \<Rightarrow> 'v" where
  "store_get parse ls key fallback =
     (case store_get_try parse ls key fallback of Inl e \<Rightarrow> fallback | Inr v \<Rightarrow> v)"

text \<open>
  The body of the \<open>try\<close> block of \<open>store.set\<close>:
  \<^verbatim>\<open>localStorage.setItem(key, JSON.stringify(value));\<close>
\<close>

definition store_set_try ::
  "('v \<Rightarrow> string option) \<Rightarrow> local_storage \<Rightarrow> string \<Rightarrow> 'v \<Rightarrow> js_error + local_storage" where
  "store_set_try stringify ls key v =
     (case stringify v of
        None \<Rightarrow> Inl TypeError
      | Some txt \<Rightarrow> setItem ls key txt)"

text \<open>\<open>store.set\<close>: the empty \<open>catch\<close> clause leaves the storage as it was.\<close>

definition store_set ::
  "('v \<Rightarrow> string option) \<Rightarrow> local_storage \<Rightarrow> string \<Rightarrow> 'v \<Rightarrow> local_storage" where
  "store_set stringify ls key v =
     (case store_set_try stringify ls key v of Inl e \<Rightarrow> ls | Inr ls' \<Rightarrow> ls')"

text \<open>
  A small codec on which the store can be run: it writes booleans as JSON does and reads
  back exactly the two texts it writes.
\<close>

definition bool_stringify :: "bool \<Rightarrow> string option" where
  "bool_stringify b = Some (if b then ''true'' else ''false'')"

definition bool_parse :: "string \<Rightarrow> bool option" where
  "bool_parse txt =
     (if txt = ''true'' then Some True else if txt = ''false'' then Some False else None)"

definition empty_storage :: local_storage where
  "empty_storage = \<lparr>items = Map.empty, disabled = False, quota = 100\<rparr>"


subsection \<open>Game 1: Byte Runner\<close>

text \<open>
  The variables of the closure \<open>createByteRunner\<close>. The page objects (\<open>root\<close>, \<open>canvas\<close>,
  \<open>ctx\<close>, the frame handle \<open>raf\<close>, \<open>pointerDown\<close>) are left to the trace. \<open>stored_r\<close> is the
  content of the store as this engine writes it through \<open>store.set\<close> when the storage
  accepts the write; what \<open>store.set\<close> does when it does not is \<open>store_set\<close> above.
\<close>

record obstacle =
  o_lane :: int
  o_y :: real
  o_h :: real

record runner =
  best_r :: int
  running :: bool
  paused_r :: bool
  alive :: bool
  playerLane :: int
  lastT :: real
  tAcc :: real
  speed :: real
  score :: real
  distance :: real
  obstacles :: "obstacle list"
  spawnTimer :: real
  spawnEvery :: real
  stored_r :: "string \<rightharpoonup> int"
  trace_r :: "effect list"

definition runner_KEY :: string where
  "runner_KEY = ''px_best_runner''"

definition W :: real where "W = 360"
definition H :: real where "H = 480"
definition lanes :: int where "lanes = 3"

text \<open>\<open>speedGain\<close> is declared with \<open>let\<close> and never assigned again.\<close>

definition speedGain :: real where "speedGain = 10"

definition laneX :: "int \<Rightarrow> real" where
  "laneX i = W * (0.2 + of_int i * 0.3)"

text \<open>\<open>createByteRunner\<close>: the initial values of the variables; \<open>best = store.get(KEY, 0)\<close>.\<close>

definition createByteRunner :: "(string \<rightharpoonup> int) \<Rightarrow> runner" where
  "createByteRunner st =
     \<lparr>best_r = (case st runner_KEY of None \<Rightarrow> 0 | Some b \<Rightarrow> b),
      running = False, paused_r = False, alive = True, playerLane = 1,
      lastT = 0, tAcc = 0, speed = 110, score = 0, distance = 0,
      obstacles = [], spawnTimer = 0, spawnEvery = 0.85,
      stored_r = st, trace_r = []\<rparr>"

definition draw :: "real \<Rightarrow> runner \<Rightarrow> runner" where
  "draw dt s = s\<lparr>trace_r := trace_r s @ [Draw dt]\<rparr>"

definition runner_reset :: "runner \<Rightarrow> runner" where
  "runner_reset s =
     draw 0 (s\<lparr>running := True, paused_r := False, alive := True, playerLane := 1,
               lastT := 0, tAcc := 0, speed := 110, score := 0, distance := 0,
               obstacles := [], spawnTimer := 0, spawnEvery := 0.85\<rparr>)"

definition runner_togglePause :: "runner \<Rightarrow> bool \<times> runner" where
  "runner_togglePause s =
     (if \<not> running s then (True, s)
      else (\<not> paused_r s, s\<lparr>paused_r := \<not> paused_r s\<rparr>))"

definition stop :: "runner \<Rightarrow> runner" where
  "stop s = s\<lparr>running := False, paused_r := False, trace_r := trace_r s @ [CancelFrame]\<rparr>"

text \<open>\<open>spawnObstacle\<close>; \<open>r1\<close> and \<open>r2\<close> are its two calls of \<open>Math.random()\<close>.\<close>

definition spawnObstacle :: "real \<Rightarrow> real \<Rightarrow> runner \<Rightarrow> runner" where
  "spawnObstacle r1 r2 s =
     (let lane = \<lfloor>r1 * of_int lanes\<rfloor>;
          h = 18 + \<lfloor>r2 * 18\<rfloor>
      in s\<lparr>obstacles := obstacles s @ [\<lparr>o_lane = lane, o_y = - of_int h, o_h = of_int h\<rparr>]\<rparr>)"

definition rectsOverlap ::
  "real \<Rightarrow> real \<Rightarrow> real \<Rightarrow> real \<Rightarrow> real \<Rightarrow> real \<Rightarrow> real \<Rightarrow> real \<Rightarrow> bool" where
  "rectsOverlap ax ay aw ah bx by' bw bh \<longleftrightarrow>
     ax < bx + bw \<and> ax + aw > bx \<and> ay < by' + bh \<and> ay + ah > by'"

text \<open>
  \<open>update(dt)\<close>, block by block as the source comments divide it. \<open>rnd k\<close> is the result
  of the \<open>k\<close>-th call of \<open>Math.random()\<close> that this call of \<open>update\<close> may make.
\<close>

definition ramp :: "real \<Rightarrow> runner \<Rightarrow> runner" where
  \<comment> \<open>ramp difficulty\<close>
  "ramp dt s =
     (let s1 = s\<lparr>distance := distance s + speed s * dt\<rparr>;
          s2 = s1\<lparr>speed := speed s1 + speedGain * dt\<rparr>
      in s2\<lparr>spawnEvery := clamp (0.85 - distance s2 / 80000) 0.35 0.85\<rparr>)"

definition scoring :: "real \<Rightarrow> runner \<Rightarrow> runner" where
  \<comment> \<open>scoring: smooth and satisfying\<close>
  "scoring dt s = s\<lparr>score := score s + (12 + speed s * 0.05) * dt\<rparr>"

definition spawn :: "real \<Rightarrow> (nat \<Rightarrow> real) \<Rightarrow> runner \<Rightarrow> runner" where
  \<comment> \<open>spawn; \<open>Math.random() < 0.10\<close> is evaluated before \<open>distance > 2000\<close>\<close>
  "spawn dt rnd s =
     (let s1 = s\<lparr>spawnTimer := spawnTimer s + dt\<rparr>
      in if spawnTimer s1 \<ge> spawnEvery s1 then
           (let s2 = spawnObstacle (rnd 0) (rnd 1) (s1\<lparr>spawnTimer := 0\<rparr>)
            in if rnd 2 < 0.10 \<and> distance s2 > 2000
               then spawnObstacle (rnd 3) (rnd 4) s2 else s2)
         else s1)"

definition move_obstacles :: "real \<Rightarrow> runner \<Rightarrow> runner" where
  \<comment> \<open>move obstacles\<close>
  "move_obstacles dt s =
     s\<lparr>obstacles := map (\<lambda>ob. ob\<lparr>o_y := o_y ob + speed s * dt\<rparr>) (obstacles s)\<rparr>"

definition cull :: "runner \<Rightarrow> runner" where
  \<comment> \<open>cull\<close>
  "cull s = s\<lparr>obstacles := filter (\<lambda>ob. o_y ob < H + 60) (obstacles s)\<rparr>"

text \<open>The test of the collision loop for one obstacle.\<close>

definition hits :: "runner \<Rightarrow> obstacle \<Rightarrow> bool" where
  "hits s ob =
     (let px = laneX (playerLane s) - 14;
          py = H - 70;
          pw = 28;
          ph = 28;
          ox = laneX (o_lane ob) - 18;
          oy = o_y ob;
          ow = 36;
          oh = o_h ob
      in rectsOverlap px py pw ph ox oy ow oh)"

text \<open>The collision loop \<open>for (const o of obstacles)\<close>, left by \<open>break\<close> at the first hit.\<close>

fun collision :: "obstacle list \<Rightarrow> runner \<Rightarrow> runner" where
  "collision [] s = s"
| "collision (ob # obs) s =
     (if hits s ob then
        (let s1 = s\<lparr>alive := False\<rparr>;
             s2 = s1\<lparr>best_r := max (best_r s1) \<lfloor>score s1\<rfloor>\<rparr>
         in s2\<lparr>stored_r := (stored_r s2)(runner_KEY \<mapsto> best_r s2)\<rparr>)
      else collision obs s)"

definition runner_update :: "real \<Rightarrow> (nat \<Rightarrow> real) \<Rightarrow> runner \<Rightarrow> runner" where
  "runner_update dt rnd s =
     (if \<not> alive s then s
      else (let s1 = cull (move_obstacles dt (spawn dt rnd (scoring dt (ramp dt s))))
            in collision (obstacles s1) s1))"

text \<open>\<open>loop(t)\<close> of Byte Runner; \<open>!lastT\<close> holds exactly when \<open>lastT\<close> is \<open>0\<close>.\<close>

definition runner_loop :: "real \<Rightarrow> (nat \<Rightarrow> real) \<Rightarrow> runner \<Rightarrow> runner" where
  "runner_loop t rnd s =
     (if \<not> running s then draw 0 s
      else (let s1 = s\<lparr>trace_r := trace_r s @ [RequestFrame]\<rparr>;
                s2 = (if lastT s1 = 0 then s1\<lparr>lastT := t\<rparr> else s1);
                dt = min 0.05 ((t - lastT s2) / 1000);
                s3 = s2\<lparr>lastT := t\<rparr>;
                s4 = (if \<not> paused_r s3 \<and> alive s3 then runner_update dt rnd s3 else s3)
            in draw dt s4))"

definition moveLane :: "int \<Rightarrow> runner \<Rightarrow> runner" where
  "moveLane dir s =
     (if \<not> alive s then s
      else s\<lparr>playerLane := clamp (playerLane s + dir) 0 (lanes - 1)\<rparr>)"

text \<open>The end of \<open>mount\<close>: \<open>reset(); stop(); running = true; raf = requestAnimationFrame(loop);\<close>\<close>

definition runner_mount :: "runner \<Rightarrow> runner" where
  "runner_mount s =
     (let s1 = stop (runner_reset s);
          s2 = s1\<lparr>running := True\<rparr>
      in s2\<lparr>trace_r := trace_r s2 @ [RequestFrame]\<rparr>)"

text \<open>
  What can happen to a mounted Byte Runner: a frame (with the timestamp and the random
  numbers of that frame), a restart (the Restart button, or Enter when dead), a lane shift,
  a pause toggle, a mount and an unmount.
\<close>

datatype runner_op =
    Frame real "nat \<Rightarrow> real"
  | Restart
  | EnterKey
  | MoveLane int
  | TogglePause
  | Mount
  | Unmount

fun runner_step :: "runner_op \<Rightarrow> runner \<Rightarrow> runner" where
  "runner_step (Frame t rnd) s = runner_loop t rnd s"
| "runner_step Restart s = runner_reset s"
| "runner_step EnterKey s = (if \<not> alive s then runner_reset s else s)"
| "runner_step (MoveLane dir) s = moveLane dir s"
| "runner_step TogglePause s = snd (runner_togglePause s)"
| "runner_step Mount s = runner_mount s"
| "runner_step Unmount s = stop s"

fun runner_run :: "runner_op list \<Rightarrow> runner \<Rightarrow> runner" where
  "runner_run [] s = s"
| "runner_run (a # as) s = runner_run as (runner_step a s)"

text \<open>
  The floored scores with which sessions end during a run: one entry for every step
  that takes the session from alive to dead.
\<close>

fun final_scores :: "runner_op list \<Rightarrow> runner \<Rightarrow> int list" where
  "final_scores [] s = []"
| "final_scores (a # as) s =
     (let s' = runner_step a s
      in (if alive s \<and> \<not> alive s' then [\<lfloor>score s'\<rfloor>] else []) @ final_scores as s')"


subsection \<open>Game 2: Neon Clicker\<close>

text \<open>
  The object \<open>state\<close> (\<open>bits\<close>, \<open>total\<close>, \<open>bpc\<close>, \<open>bps\<close>, \<open>upgrades\<close>) and the variables
  \<open>tickTimer\<close>, \<open>last\<close>, \<open>paused\<close> of the closure \<open>createNeonClicker\<close>, in one record.
  \<open>total\<close> and \<open>last\<close> are written \<open>total_c\<close> and \<open>last_c\<close>.
\<close>

record upgrades =
  core :: nat
  drip :: nat
  crit :: nat

record clicker =
  bits :: real
  total_c :: real
  bpc :: int
  bps :: int
  upgrades :: upgrades
  tickTimer :: real
  last_c :: real
  paused_c :: bool
  trace_c :: "effect list"

text \<open>An entry of \<open>upgradeDefs\<close>; the field \<open>id\<close> is written \<open>uid\<close>.\<close>

record upgrade_def =
  uid :: string
  title :: string
  desc :: string
  base :: real
  mult :: real
  buy :: "clicker \<Rightarrow> clicker"

text \<open>The fallback object of \<open>store.get(KEY, {...})\<close>, with the initial closure variables.\<close>

definition createNeonClicker :: clicker where
  "createNeonClicker =
     \<lparr>bits = 0, total_c = 0, bpc = 1, bps = 0,
      upgrades = \<lparr>core = 0, drip = 0, crit = 0\<rparr>,
      tickTimer = 0, last_c = 0, paused_c = False, trace_c = []\<rparr>"

definition upgradeDefs :: "upgrade_def list" where
  "upgradeDefs =
     [\<lparr>uid = ''core'', title = ''Core Boost'', desc = ''+1 bits per click'',
       base = 25, mult = 1.22,
       buy = (\<lambda>s. let s1 = s\<lparr>upgrades := (upgrades s)\<lparr>core := core (upgrades s) + 1\<rparr>\<rparr>
                  in s1\<lparr>bpc := bpc s1 + 1\<rparr>)\<rparr>,
      \<lparr>uid = ''drip'', title = ''Background Drip'', desc = ''+1 bits per second'',
       base = 60, mult = 1.28,
       buy = (\<lambda>s. let s1 = s\<lparr>upgrades := (upgrades s)\<lparr>drip := drip (upgrades s) + 1\<rparr>\<rparr>
                  in s1\<lparr>bps := bps s1 + 1\<rparr>)\<rparr>,
      \<lparr>uid = ''crit'', title = ''Glitch Crit'',
       desc = ''More critical clicks (bigger spikes)'',
       base = 120, mult = 1.35,
       buy = (\<lambda>s. s\<lparr>upgrades := (upgrades s)\<lparr>crit := crit (upgrades s) + 1\<rparr>\<rparr>)\<rparr>]"

text \<open>\<open>state.upgrades[u.id] || 0\<close>: the level stored under a key, \<open>0\<close> for any other key.\<close>

definition level :: "upgrades \<Rightarrow> string \<Rightarrow> nat" where
  "level ups k =
     (if k = ''core'' then core ups
      else if k = ''drip'' then drip ups
      else if k = ''crit'' then crit ups
      else 0)"

definition calcCost :: "clicker \<Rightarrow> upgrade_def \<Rightarrow> int" where
  "calcCost s u = (let lvl = level (upgrades s) (uid u) in \<lfloor>base u * mult u ^ lvl\<rfloor>)"

definition save :: "clicker \<Rightarrow> clicker" where
  "save s = s\<lparr>trace_c := trace_c s @ [Save]\<rparr>"

definition clicker_render :: "clicker \<Rightarrow> clicker" where
  "clicker_render s = s\<lparr>trace_c := trace_c s @ [Render]\<rparr>"

definition clicker_refreshMenuBadges :: "clicker \<Rightarrow> clicker" where
  "clicker_refreshMenuBadges s = s\<lparr>trace_c := trace_c s @ [RefreshMenuBadges]\<rparr>"

definition clicker_togglePause :: "clicker \<Rightarrow> bool \<times> clicker" where
  "clicker_togglePause s = (\<not> paused_c s, s\<lparr>paused_c := \<not> paused_c s\<rparr>)"

definition addBits :: "real \<Rightarrow> clicker \<Rightarrow> clicker" where
  "addBits n s =
     (let s1 = s\<lparr>bits := bits s + n\<rparr>;
          s2 = s1\<lparr>total_c := total_c s1 + n\<rparr>
      in clicker_refreshMenuBadges (clicker_render (save s2)))"

text \<open>\<open>clickGain\<close>; \<open>r\<close> is its call of \<open>Math.random()\<close>. The result is \<open>(gain, crit)\<close>.\<close>

definition clickGain :: "real \<Rightarrow> clicker \<Rightarrow> real \<times> bool" where
  "clickGain r s =
     (let critChance = clamp (0.08 + real (crit (upgrades s)) * 0.02) 0.08 0.40;
          is_crit = r < critChance;
          m = (if is_crit then 3 + min 4 (int (crit (upgrades s))) else 1)
      in (of_int (bpc s * m), is_crit))"

text \<open>The click handler of the big button.\<close>

definition click :: "real \<Rightarrow> clicker \<Rightarrow> clicker" where
  "click r s = (let (gain, is_crit) = clickGain r s in addBits gain s)"

text \<open>The block \<open>// passive income\<close> of \<open>loop\<close>, which is what the loop does with \<open>dt\<close>.\<close>

definition passive_income :: "real \<Rightarrow> clicker \<Rightarrow> clicker" where
  "passive_income dt s =
     (let s4 = s\<lparr>tickTimer := tickTimer s + dt\<rparr>
      in if tickTimer s4 \<ge> 0.2 then
           (let steps = \<lfloor>tickTimer s4 / 0.2\<rfloor>;
                s5 = s4\<lparr>tickTimer := tickTimer s4 - of_int steps * 0.2\<rparr>;
                gain = (of_int (bps s5) * 0.2) * of_int steps
            in if gain > 0 then
                 (let s6 = s5\<lparr>bits := bits s5 + gain\<rparr>;
                      s7 = s6\<lparr>total_c := total_c s6 + gain\<rparr>
                  in clicker_refreshMenuBadges (clicker_render (save s7)))
               else s5)
         else s4)"

text \<open>\<open>loop(t)\<close> of Neon Clicker.\<close>

definition clicker_loop :: "real \<Rightarrow> clicker \<Rightarrow> clicker" where
  "clicker_loop t s =
     (let s1 = s\<lparr>trace_c := trace_c s @ [RequestFrame]\<rparr>;
          s2 = (if last_c s1 = 0 then s1\<lparr>last_c := t\<rparr> else s1);
          dt = min 0.05 ((t - last_c s2) / 1000);
          s3 = s2\<lparr>last_c := t\<rparr>
      in if paused_c s3 then s3 else passive_income dt s3)"

text \<open>The click handler of the buy button of upgrade \<open>u\<close>.\<close>

definition buy_click :: "upgrade_def \<Rightarrow> clicker \<Rightarrow> clicker" where
  "buy_click u s =
     (let c = calcCost s u
      in if bits s < of_int c then s
         else (let s1 = s\<lparr>bits := bits s - of_int c\<rparr>
               in clicker_refreshMenuBadges (clicker_render (save (buy u s1)))))"

definition clicker_restart :: "clicker \<Rightarrow> clicker" where
  "clicker_restart s =
     clicker_refreshMenuBadges (clicker_render (save
       (s\<lparr>bits := 0, total_c := 0, bpc := 1, bps := 0,
          upgrades := \<lparr>core = 0, drip = 0, crit = 0\<rparr>\<rparr>)))"

text \<open>
  What can happen to a mounted Neon Clicker: a click (with its random number), a frame,
  a press on the buy button of the \<open>i\<close>-th entry of \<open>upgradeDefs\<close> (\<open>render\<close> makes one button
  for each entry and no other), a restart and a pause toggle.
\<close>

datatype clicker_op =
    Click real
  | Tick real
  | Buy nat
  | ClickerRestart
  | ClickerPause

fun clicker_step :: "clicker_op \<Rightarrow> clicker \<Rightarrow> clicker" where
  "clicker_step (Click r) s = click r s"
| "clicker_step (Tick t) s = clicker_loop t s"
| "clicker_step (Buy i) s =
     (if i < length upgradeDefs then buy_click (upgradeDefs ! i) s else s)"
| "clicker_step ClickerRestart s = clicker_restart s"
| "clicker_step ClickerPause s = snd (clicker_togglePause s)"

fun clicker_run :: "clicker_op list \<Rightarrow> clicker \<Rightarrow> clicker" where
  "clicker_run [] s = s"
| "clicker_run (a # as) s = clicker_run as (clicker_step a s)"

subsection \<open>Game 3: Glitch React\<close>

text \<open>
  The variables of the closure \<open>createGlitchReact\<close>; \<open>msg\<close> is the text of \<open>msgEl\<close>.
  \<open>best\<close>, \<open>paused\<close> and \<open>last\<close> are written \<open>best_g\<close>, \<open>paused_g\<close> and \<open>last_g\<close>.
\<close>

record react =
  best_g :: int
  paused_g :: bool
  live :: bool
  streak :: nat
  timeLeft :: real
  timer :: real
  targetIndex :: int
  last_g :: real
  msg :: string
  stored_g :: "string \<rightharpoonup> int"
  trace_g :: "effect list"

definition react_KEY :: string where
  "react_KEY = ''px_best_react''"

definition createGlitchReact :: "(string \<rightharpoonup> int) \<Rightarrow> react" where
  "createGlitchReact st =
     \<lparr>best_g = (case st react_KEY of None \<Rightarrow> 0 | Some b \<Rightarrow> b),
      paused_g = False, live = False, streak = 0, timeLeft = 1.5, timer = 0,
      targetIndex = 0, last_g = 0, msg = ''Press Enter to start.'',
      stored_g = st, trace_g = []\<rparr>"

definition react_render :: "react \<Rightarrow> react" where
  "react_render s = s\<lparr>trace_g := trace_g s @ [Render]\<rparr>"

definition react_refreshMenuBadges :: "react \<Rightarrow> react" where
  "react_refreshMenuBadges s = s\<lparr>trace_g := trace_g s @ [RefreshMenuBadges]\<rparr>"

definition saveBest :: "react \<Rightarrow> react" where
  "saveBest s =
     (let s1 = s\<lparr>best_g := max (best_g s) (int (streak s))\<rparr>
      in s1\<lparr>stored_g := (stored_g s1)(react_KEY \<mapsto> best_g s1)\<rparr>)"

text \<open>\<open>newTarget\<close>; \<open>r\<close> is its call of \<open>Math.random()\<close>.\<close>

definition newTarget :: "real \<Rightarrow> react \<Rightarrow> react" where
  "newTarget r s =
     (let next = \<lfloor>r * 4\<rfloor>;
          s1 = s\<lparr>targetIndex := next\<rparr>;
          s2 = s1\<lparr>timer := 0\<rparr>;
          s3 = s2\<lparr>timeLeft := clamp (1.55 - real (streak s2) * 0.03) 0.55 1.55\<rparr>
      in react_render s3)"

definition react_end :: "react \<Rightarrow> react" where
  "react_end s = react_refreshMenuBadges (react_render (saveBest (s\<lparr>live := False\<rparr>)))"

text \<open>\<open>hit(i)\<close>; \<open>r\<close> is the random number of the \<open>newTarget\<close> it may call.\<close>

definition hit :: "int \<Rightarrow> real \<Rightarrow> react \<Rightarrow> react" where
  "hit i r s =
     (if \<not> live s \<or> paused_g s then s
      else if i = targetIndex s then
        newTarget r (s\<lparr>streak := streak s + 1, msg := ''Perfect.''\<rparr>)
      else react_end (s\<lparr>msg := ''Miss.''\<rparr>))"

definition start :: "real \<Rightarrow> react \<Rightarrow> react" where
  "start r s = react_render (newTarget r (s\<lparr>live := True, streak := 0, msg := ''Focus.''\<rparr>))"

definition react_togglePause :: "react \<Rightarrow> bool \<times> react" where
  "react_togglePause s = (\<not> paused_g s, s\<lparr>paused_g := \<not> paused_g s\<rparr>)"

text \<open>The end of \<open>loop\<close>, after the pause test, which is what the loop does with \<open>dt\<close>.\<close>

definition countdown :: "real \<Rightarrow> react \<Rightarrow> react" where
  "countdown dt s =
     (let s4 = s\<lparr>timer := timer s + dt\<rparr>
      in if timer s4 \<ge> timeLeft s4 then react_end (s4\<lparr>msg := ''Too slow.''\<rparr>)
         else react_render s4)"

text \<open>\<open>loop(t)\<close> of Glitch React.\<close>

definition react_loop :: "real \<Rightarrow> react \<Rightarrow> react" where
  "react_loop t s =
     (let s1 = s\<lparr>trace_g := trace_g s @ [RequestFrame]\<rparr>;
          s2 = (if last_g s1 = 0 then s1\<lparr>last_g := t\<rparr> else s1);
          dt = min 0.05 ((t - last_g s2) / 1000);
          s3 = s2\<lparr>last_g := t\<rparr>
      in if \<not> live s3 \<or> paused_g s3 then s3 else countdown dt s3)"


subsection \<open>Values used in the statements\<close>

text \<open>
  The timestep that the first three lines of every \<open>loop\<close> compute from the timestamp
  \<open>t\<close> and the stored timestamp \<open>l\<close>:
  \<^verbatim>\<open>if (!last) last = t; const dt = Math.min(0.05, (t - last) / 1000);\<close>
\<close>

definition frame_dt :: "real \<Rightarrow> real \<Rightarrow> real" where
  "frame_dt t l = (if l = 0 then 0 else min 0.05 ((t - l) / 1000))"

text \<open>A supply of random numbers: every call of \<open>Math.random()\<close> gives one half.\<close>

definition rnd_half :: "nat \<Rightarrow> real" where
  "rnd_half k = 1 / 2"

text \<open>A mounted Byte Runner, paused.\<close>

definition paused_runner :: runner where
  "paused_runner = snd (runner_togglePause (runner_mount (createByteRunner Map.empty)))"

text \<open>A started Glitch React, paused.\<close>

definition paused_react :: react where
  "paused_react = snd (react_togglePause (start (1 / 2) (createGlitchReact Map.empty)))"

text \<open>A Neon Clicker, paused.\<close>

definition paused_clicker :: clicker where
  "paused_clicker = snd (clicker_togglePause createNeonClicker)"

text \<open>A Neon Clicker whose Core Boost has level \<open>L\<close>.\<close>

definition at_core_level :: "nat \<Rightarrow> clicker" where
  "at_core_level L = createNeonClicker\<lparr>upgrades := \<lparr>core = L, drip = 0, crit = 0\<rparr>\<rparr>"

text \<open>A Neon Clicker with \<open>30\<close> bits earned and not yet spent.\<close>

definition clicker_30 :: clicker where
  "clicker_30 = createNeonClicker\<lparr>bits := 30, total_c := 30\<rparr>"

text \<open>A live Glitch React session with a streak of \<open>40\<close>.\<close>

definition react_40 :: react where
  "react_40 = (start (1 / 2) (createGlitchReact Map.empty))\<lparr>streak := 40\<rparr>"

text \<open>A freshly mounted Byte Runner.\<close>

definition fresh_runner :: runner where
  "fresh_runner = runner_mount (createByteRunner Map.empty)"

text \<open>
  A running session with a score of \<open>41.5\<close> and an obstacle of height \<open>20\<close> in the
  player's lane, at the height of the player.
\<close>

definition doomed_runner :: runner where
  "doomed_runner =
     fresh_runner\<lparr>score := 41.5, obstacles := [\<lparr>o_lane = 1, o_y = 410, o_h = 20\<rparr>]\<rparr>"

text \<open>Each engine after a first frame at timestamp \<open>1000\<close>.\<close>

definition ticked_runner :: runner where
  "ticked_runner = runner_loop 1000 rnd_half fresh_runner"

definition ticked_clicker :: clicker where
  "ticked_clicker = clicker_loop 1000 createNeonClicker"

definition ticked_react :: react where
  "ticked_react = react_loop 1000 (start (1 / 2) (createGlitchReact Map.empty))"

section \<open>Properties\<close>

subsection \<open>Persistent store\<close>

text \<open>
  Claim C3. \<open>store.get(k, f)\<close> returns \<open>f\<close>, and raises nothing (it is a total function into
  values, every error of its \<open>try\<close> block being caught), when the key is missing, when the
  stored text does not parse, and when the storage is unavailable. \<open>store.set(k, v)\<close>
  leaves the storage as it was whenever its \<open>try\<close> block fails. When the write goes
  through and the JSON codec reads back what it wrote, \<open>store.set(k, v)\<close> followed by
  \<open>store.get(k, f)\<close> returns \<open>v\<close>. The text \<open>enc\<close> is what \<open>JSON.stringify\<close> gives for \<open>v\<close>;
  it is never empty for a JSON value, which is what the truthiness test on \<open>raw\<close> needs.
\<close>

theorem store_contract:
  "(items ls k = None \<longrightarrow> store_get parse ls k f = f) \<and>
   (items ls k = Some raw \<and> parse raw = None \<longrightarrow> store_get parse ls k f = f) \<and>
   (disabled ls \<longrightarrow> store_get parse ls k f = f) \<and>
   (store_set_try stringify ls k v = Inl e \<longrightarrow> store_set stringify ls k v = ls) \<and>
   (\<not> disabled ls \<and> stringify v = Some enc \<and> length enc \<le> quota ls \<and>
    enc \<noteq> [] \<and> parse enc = Some v \<longrightarrow>
      store_get parse (store_set stringify ls k v) k f = v)"
  by (simp add: store_get_def store_get_try_def getItem_def store_set_def store_set_try_def
      setItem_def)

text \<open>The contract at work on the key of the sound toggle, with the boolean codec.\<close>

theorem store_contract_witness:
  "items empty_storage ''px_sound'' = None \<and>
   store_get bool_parse empty_storage ''px_sound'' True = True \<and>
   items (empty_storage\<lparr>items := [''px_sound'' \<mapsto> ''tru'']\<rparr>) ''px_sound'' = Some ''tru'' \<and>
   bool_parse ''tru'' = None \<and>
   store_get bool_parse (empty_storage\<lparr>items := [''px_sound'' \<mapsto> ''tru'']\<rparr>) ''px_sound'' True = True \<and>
   disabled (empty_storage\<lparr>disabled := True\<rparr>) \<and>
   store_get bool_parse (empty_storage\<lparr>disabled := True\<rparr>) ''px_sound'' True = True \<and>
   store_set_try bool_stringify (empty_storage\<lparr>disabled := True\<rparr>) ''px_sound'' True
     = Inl SecurityError \<and>
   store_set bool_stringify (empty_storage\<lparr>disabled := True\<rparr>) ''px_sound'' True
     = empty_storage\<lparr>disabled := True\<rparr> \<and>
   \<not> disabled empty_storage \<and> bool_stringify True = Some ''true'' \<and>
   length ''true'' \<le> quota empty_storage \<and> ''true'' \<noteq> [] \<and> bool_parse ''true'' = Some True \<and>
   store_get bool_parse (store_set bool_stringify empty_storage ''px_sound'' True) ''px_sound'' False
     = True"
proof -
  have h1: "items empty_storage ''px_sound'' = None"
    by (simp add: empty_storage_def)
  have h2: "items (empty_storage\<lparr>items := [''px_sound'' \<mapsto> ''tru'']\<rparr>) ''px_sound'' = Some ''tru''
      \<and> bool_parse ''tru'' = None"
    by (simp add: bool_parse_def)
  have h3: "disabled (empty_storage\<lparr>disabled := True\<rparr>)"
    by simp
  have h4: "store_set_try bool_stringify (empty_storage\<lparr>disabled := True\<rparr>) ''px_sound'' True
     = Inl SecurityError"
    by (simp add: store_set_try_def bool_stringify_def setItem_def)
  have h5: "\<not> disabled empty_storage \<and> bool_stringify True = Some ''true'' \<and>
     length ''true'' \<le> quota empty_storage \<and> ''true'' \<noteq> [] \<and> bool_parse ''true'' = Some True"
    by (simp add: empty_storage_def bool_stringify_def bool_parse_def)
  note c = store_contract
  from h1 c [of empty_storage "''px_sound''" bool_parse True]
  have g1: "store_get bool_parse empty_storage ''px_sound'' True = True" by blast
  from h2 c [of "empty_storage\<lparr>items := [''px_sound'' \<mapsto> ''tru'']\<rparr>" "''px_sound''" bool_parse True "''tru''"]
  have g2: "store_get bool_parse (empty_storage\<lparr>items := [''px_sound'' \<mapsto> ''tru'']\<rparr>) ''px_sound'' True = True"
    by blast
  from h3 c [of "empty_storage\<lparr>disabled := True\<rparr>" "''px_sound''" bool_parse True]
  have g3: "store_get bool_parse (empty_storage\<lparr>disabled := True\<rparr>) ''px_sound'' True = True"
    by blast
  from h4 c [where ls = "empty_storage\<lparr>disabled := True\<rparr>" and k = "''px_sound''"
      and stringify = bool_stringify and v = True and e = SecurityError]
  have g4: "store_set bool_stringify (empty_storage\<lparr>disabled := True\<rparr>) ''px_sound'' True
     = empty_storage\<lparr>disabled := True\<rparr>"
    by blast
  from h5 c [where ls = empty_storage and k = "''px_sound''" and parse = bool_parse
      and stringify = bool_stringify and v = True and enc = "''true''" and f = False]
  have g5: "store_get bool_parse (store_set bool_stringify empty_storage ''px_sound'' True) ''px_sound'' False
     = True"
    by blast
  from h1 h2 h3 h4 h5 g1 g2 g3 g4 g5 show ?thesis by blast
qed

subsection \<open>The frame loop: rendering on skipped ticks\<close>

lemma collision_trace: "trace_r (collision obs s) = trace_r s"
  by (induction obs) (simp_all add: Let_def)

lemma pre_collision_trace:
  "trace_r (cull (move_obstacles dt (spawn dt rnd (scoring dt (ramp dt s))))) = trace_r s"
  by (simp add: cull_def move_obstacles_def spawn_def spawnObstacle_def scoring_def ramp_def
      Let_def)

lemma runner_update_trace: "trace_r (runner_update dt rnd s) = trace_r s"
  by (simp add: runner_update_def Let_def collision_trace pre_collision_trace)

lemma runner_loop_trace:
  "trace_r (runner_loop t rnd s) =
     trace_r s @ (if running s then [RequestFrame, Draw (frame_dt t (lastT s))] else [Draw 0])"
  by (simp add: runner_loop_def draw_def Let_def runner_update_trace frame_dt_def)

text \<open>
  Claim C1, as stated, fails: a tick of Glitch React on a paused session returns before
  \<open>render()\<close>. The session below was started and then paused; the tick at timestamp \<open>16\<close>
  adds the frame request to the trace and nothing else, so no render is executed.
\<close>

theorem paused_react_tick_renders_nothing:
  "live paused_react \<and> paused_g paused_react \<and>
   trace_g (react_loop 16 paused_react) = trace_g paused_react @ [RequestFrame] \<and>
   Render \<notin> set [RequestFrame]"
  by (simp add: paused_react_def react_togglePause_def start_def newTarget_def react_render_def
      createGlitchReact_def react_loop_def Let_def)

text \<open>
  Claim C1, amended. In Byte Runner every tick of the frame loop ends with the render
  step \<open>draw\<close>, also when the update is skipped: when the engine is not running the tick
  only draws, and when it is running but paused or dead the tick changes the stored
  timestamp \<open>lastT\<close>, requests the next frame, draws, and changes no other variable of the
  session. In Glitch React a tick on a session that is paused or not live, and in Neon
  Clicker a tick on a paused session, changes the stored timestamp, requests the next
  frame and does nothing else: it renders nothing.
\<close>

theorem skipped_tick:
  "(\<exists>d. trace_r (runner_loop t rnd s) \<noteq> [] \<and> last (trace_r (runner_loop t rnd s)) = Draw d) \<and>
   (\<not> running s \<longrightarrow> runner_loop t rnd s = s\<lparr>trace_r := trace_r s @ [Draw 0]\<rparr>) \<and>
   (running s \<and> (paused_r s \<or> \<not> alive s) \<longrightarrow>
      runner_loop t rnd s =
        s\<lparr>lastT := t, trace_r := trace_r s @ [RequestFrame, Draw (frame_dt t (lastT s))]\<rparr>) \<and>
   (\<not> live g \<or> paused_g g \<longrightarrow>
      react_loop t g = g\<lparr>last_g := t, trace_g := trace_g g @ [RequestFrame]\<rparr>) \<and>
   (paused_c c \<longrightarrow>
      clicker_loop t c = c\<lparr>last_c := t, trace_c := trace_c c @ [RequestFrame]\<rparr>)"
proof -
  have 1: "\<exists>d. trace_r (runner_loop t rnd s) \<noteq> [] \<and> last (trace_r (runner_loop t rnd s)) = Draw d"
    by (simp add: runner_loop_trace)
  have 2: "\<not> running s \<longrightarrow> runner_loop t rnd s = s\<lparr>trace_r := trace_r s @ [Draw 0]\<rparr>"
    by (simp add: runner_loop_def draw_def)
  have 3: "running s \<and> (paused_r s \<or> \<not> alive s) \<longrightarrow>
      runner_loop t rnd s =
        s\<lparr>lastT := t, trace_r := trace_r s @ [RequestFrame, Draw (frame_dt t (lastT s))]\<rparr>"
    by (auto simp add: runner_loop_def draw_def Let_def frame_dt_def)
  have 4: "\<not> live g \<or> paused_g g \<longrightarrow>
      react_loop t g = g\<lparr>last_g := t, trace_g := trace_g g @ [RequestFrame]\<rparr>"
    by (auto simp add: react_loop_def Let_def)
  have 5: "paused_c c \<longrightarrow>
      clicker_loop t c = c\<lparr>last_c := t, trace_c := trace_c c @ [RequestFrame]\<rparr>"
    by (auto simp add: clicker_loop_def Let_def)
  from 1 2 3 4 5 show ?thesis by blast
qed

text \<open>
  The amended claim on an unmounted Byte Runner (not running), a paused Byte Runner, a
  paused Glitch React and a paused Neon Clicker, each given a tick at timestamp \<open>16\<close>.
\<close>

theorem skipped_tick_witness:
  "\<not> running (createByteRunner Map.empty) \<and>
   runner_loop 16 rnd_half (createByteRunner Map.empty)
     = (createByteRunner Map.empty)\<lparr>trace_r := trace_r (createByteRunner Map.empty) @ [Draw 0]\<rparr> \<and>
   running paused_runner \<and> paused_r paused_runner \<and>
   runner_loop 16 rnd_half paused_runner
     = paused_runner\<lparr>lastT := 16,
         trace_r := trace_r paused_runner @ [RequestFrame, Draw (frame_dt 16 (lastT paused_runner))]\<rparr> \<and>
   paused_g paused_react \<and>
   react_loop 16 paused_react
     = paused_react\<lparr>last_g := 16, trace_g := trace_g paused_react @ [RequestFrame]\<rparr> \<and>
   paused_c paused_clicker \<and>
   clicker_loop 16 paused_clicker
     = paused_clicker\<lparr>last_c := 16, trace_c := trace_c paused_clicker @ [RequestFrame]\<rparr>"
proof -
  have h1: "\<not> running (createByteRunner Map.empty)"
    by (simp add: createByteRunner_def)
  have h2: "running paused_runner \<and> paused_r paused_runner"
    by (simp add: paused_runner_def runner_togglePause_def runner_mount_def stop_def
        runner_reset_def draw_def createByteRunner_def Let_def)
  have h3: "paused_g paused_react"
    by (simp add: paused_react_def react_togglePause_def start_def newTarget_def
        react_render_def createGlitchReact_def Let_def)
  have h4: "paused_c paused_clicker"
    by (simp add: paused_clicker_def clicker_togglePause_def createNeonClicker_def)
  note a = skipped_tick [where t = 16 and rnd = rnd_half and s = "createByteRunner Map.empty"
      and g = paused_react and c = paused_clicker]
  note b = skipped_tick [where t = 16 and rnd = rnd_half and s = paused_runner
      and g = paused_react and c = paused_clicker]
  from h1 h2 h3 h4 a b show ?thesis by blast
qed

subsection \<open>Neon Clicker: upgrade costs and purchases\<close>

lemma upgradeDefs_growth: "u \<in> set upgradeDefs \<Longrightarrow> 0 \<le> base u \<and> 1 \<le> mult u"
  by (auto simp add: upgradeDefs_def)

lemma cost_mono:
  assumes "u \<in> set upgradeDefs" "L \<le> L'"
  shows "\<lfloor>base u * mult u ^ L\<rfloor> \<le> \<lfloor>base u * mult u ^ L'\<rfloor>"
proof -
  from assms(1) have b: "0 \<le> base u" and m: "1 \<le> mult u"
    using upgradeDefs_growth by blast+
  from m assms(2) have "mult u ^ L \<le> mult u ^ L'"
    by (rule power_increasing[rotated])
  with b have "base u * mult u ^ L \<le> base u * mult u ^ L'"
    by (rule mult_left_mono[rotated])
  then show ?thesis by (rule floor_mono)
qed

text \<open>
  Claim C6. The cost of upgrade \<open>u\<close> in a state where its level is \<open>L\<close> is
  \<open>floor(base * mult^L)\<close>; for each of the three upgrades of \<open>upgradeDefs\<close> the cost does
  not decrease when the level grows; and Core Boost, with base \<open>25\<close> and factor \<open>1.22\<close>,
  costs \<open>25\<close> at level \<open>0\<close>, \<open>30\<close> at level \<open>1\<close> and \<open>67\<close> at level \<open>5\<close>.
\<close>

theorem calcCost_formula:
  "calcCost s u = \<lfloor>base u * mult u ^ level (upgrades s) (uid u)\<rfloor> \<and>
   (u \<in> set upgradeDefs \<and> level (upgrades s) (uid u) \<le> level (upgrades s') (uid u)
      \<longrightarrow> calcCost s u \<le> calcCost s' u) \<and>
   base (upgradeDefs ! 0) = 25 \<and> mult (upgradeDefs ! 0) = 1.22 \<and>
   calcCost (at_core_level 0) (upgradeDefs ! 0) = 25 \<and>
   calcCost (at_core_level 1) (upgradeDefs ! 0) = 30 \<and>
   calcCost (at_core_level 5) (upgradeDefs ! 0) = 67"
proof -
  have 1: "calcCost s u = \<lfloor>base u * mult u ^ level (upgrades s) (uid u)\<rfloor>"
    by (simp add: calcCost_def)
  have 2: "u \<in> set upgradeDefs \<and> level (upgrades s) (uid u) \<le> level (upgrades s') (uid u)
      \<longrightarrow> calcCost s u \<le> calcCost s' u"
    by (simp add: calcCost_def cost_mono)
  have 3: "base (upgradeDefs ! 0) = 25 \<and> mult (upgradeDefs ! 0) = 1.22"
    by (simp add: upgradeDefs_def)
  have 4: "calcCost (at_core_level 0) (upgradeDefs ! 0) = 25"
    by (simp add: calcCost_def at_core_level_def upgradeDefs_def level_def)
  have 5: "calcCost (at_core_level 1) (upgradeDefs ! 0) = 30"
    by (simp add: calcCost_def at_core_level_def upgradeDefs_def level_def)
  have 6: "calcCost (at_core_level 5) (upgradeDefs ! 0) = 67"
    by (simp add: calcCost_def at_core_level_def upgradeDefs_def level_def power_divide)
  from 1 2 3 4 5 6 show ?thesis by blast
qed

text \<open>Background Drip costs no more at level \<open>0\<close> than at level \<open>3\<close>.\<close>

theorem calcCost_formula_witness:
  "upgradeDefs ! 1 \<in> set upgradeDefs \<and>
   level (upgrades (at_core_level 0)) (uid (upgradeDefs ! 1))
     \<le> level (upgrades (createNeonClicker\<lparr>upgrades := \<lparr>core = 0, drip = 3, crit = 0\<rparr>\<rparr>))
         (uid (upgradeDefs ! 1)) \<and>
   calcCost (at_core_level 0) (upgradeDefs ! 1)
     \<le> calcCost (createNeonClicker\<lparr>upgrades := \<lparr>core = 0, drip = 3, crit = 0\<rparr>\<rparr>) (upgradeDefs ! 1)"
proof -
  have h: "upgradeDefs ! 1 \<in> set upgradeDefs \<and>
    level (upgrades (at_core_level 0)) (uid (upgradeDefs ! 1))
     \<le> level (upgrades (createNeonClicker\<lparr>upgrades := \<lparr>core = 0, drip = 3, crit = 0\<rparr>\<rparr>))
         (uid (upgradeDefs ! 1))"
    by (simp add: upgradeDefs_def level_def at_core_level_def)
  with calcCost_formula [where u = "upgradeDefs ! 1" and s = "at_core_level 0"
      and s' = "createNeonClicker\<lparr>upgrades := \<lparr>core = 0, drip = 3, crit = 0\<rparr>\<rparr>"]
  show ?thesis by blast
qed

lemma clicker_effects:
  "bits (save s) = bits s" "total_c (save s) = total_c s" "bpc (save s) = bpc s"
  "bps (save s) = bps s" "upgrades (save s) = upgrades s"
  "bits (clicker_render s) = bits s" "total_c (clicker_render s) = total_c s"
  "bpc (clicker_render s) = bpc s" "bps (clicker_render s) = bps s"
  "upgrades (clicker_render s) = upgrades s"
  "bits (clicker_refreshMenuBadges s) = bits s" "total_c (clicker_refreshMenuBadges s) = total_c s"
  "bpc (clicker_refreshMenuBadges s) = bpc s" "bps (clicker_refreshMenuBadges s) = bps s"
  "upgrades (clicker_refreshMenuBadges s) = upgrades s"
  by (simp_all add: save_def clicker_render_def clicker_refreshMenuBadges_def)

lemma buy_click_fail: "bits s < of_int (calcCost s u) \<Longrightarrow> buy_click u s = s"
  by (simp add: buy_click_def)

lemma buy_click_ok:
  "\<not> bits s < of_int (calcCost s u) \<Longrightarrow>
     buy_click u s =
       clicker_refreshMenuBadges (clicker_render (save
         (buy u (s\<lparr>bits := bits s - of_int (calcCost s u)\<rparr>))))"
  by (simp add: buy_click_def Let_def)

lemma buy_effect:
  assumes "u \<in> set upgradeDefs"
  shows "bits (buy u s) = bits s \<and> total_c (buy u s) = total_c s \<and>
    level (upgrades (buy u s)) (uid u) = level (upgrades s) (uid u) + 1 \<and>
    (\<forall>k. k \<noteq> uid u \<longrightarrow> level (upgrades (buy u s)) k = level (upgrades s) k) \<and>
    bpc (buy u s) = bpc s + (if uid u = ''core'' then 1 else 0) \<and>
    bps (buy u s) = bps s + (if uid u = ''drip'' then 1 else 0)"
  using assms by (auto simp add: upgradeDefs_def level_def Let_def)

lemma buy_click_effect:
  assumes "u \<in> set upgradeDefs" "\<not> bits s < of_int (calcCost s u)"
  shows "bits (buy_click u s) = bits s - of_int (calcCost s u) \<and>
    total_c (buy_click u s) = total_c s \<and>
    level (upgrades (buy_click u s)) (uid u) = level (upgrades s) (uid u) + 1 \<and>
    (\<forall>k. k \<noteq> uid u \<longrightarrow> level (upgrades (buy_click u s)) k = level (upgrades s) k) \<and>
    bpc (buy_click u s) = bpc s + (if uid u = ''core'' then 1 else 0) \<and>
    bps (buy_click u s) = bps s + (if uid u = ''drip'' then 1 else 0)"
  using buy_effect [OF assms(1), of "s\<lparr>bits := bits s - of_int (calcCost s u)\<rparr>"]
  by (simp add: buy_click_ok [OF assms(2)] clicker_effects)

text \<open>
  Claim C7. A press on the buy button of an upgrade \<open>u\<close> of \<open>upgradeDefs\<close> leaves the
  state as it is when \<open>bits\<close> is below the cost. Otherwise the handler subtracts the cost
  from \<open>bits\<close> and calls \<open>u.buy()\<close> once (then saves and renders): the level of \<open>u\<close> goes
  up by one, no other level changes, \<open>bpc\<close> goes up by one exactly for Core Boost and
  \<open>bps\<close> by one exactly for Background Drip, and \<open>total\<close> is untouched. With \<open>bits = 25\<close>
  and Core Boost at level \<open>0\<close> the cost is \<open>25\<close>, and after the purchase \<open>bits = 0\<close>,
  \<open>bpc\<close> is one more than before and the level of Core Boost is \<open>1\<close>.
\<close>

theorem buy_click_purchase:
  "(u \<in> set upgradeDefs \<and> bits s < of_int (calcCost s u) \<longrightarrow> buy_click u s = s) \<and>
   (u \<in> set upgradeDefs \<and> bits s \<ge> of_int (calcCost s u) \<longrightarrow>
      buy_click u s =
        clicker_refreshMenuBadges (clicker_render (save
          (buy u (s\<lparr>bits := bits s - of_int (calcCost s u)\<rparr>)))) \<and>
      bits (buy_click u s) = bits s - of_int (calcCost s u) \<and>
      total_c (buy_click u s) = total_c s \<and>
      level (upgrades (buy_click u s)) (uid u) = level (upgrades s) (uid u) + 1 \<and>
      (\<forall>k. k \<noteq> uid u \<longrightarrow> level (upgrades (buy_click u s)) k = level (upgrades s) k) \<and>
      bpc (buy_click u s) = bpc s + (if uid u = ''core'' then 1 else 0) \<and>
      bps (buy_click u s) = bps s + (if uid u = ''drip'' then 1 else 0)) \<and>
   uid (upgradeDefs ! 0) = ''core'' \<and>
   calcCost (createNeonClicker\<lparr>bits := 25\<rparr>) (upgradeDefs ! 0) = 25 \<and>
   bits (buy_click (upgradeDefs ! 0) (createNeonClicker\<lparr>bits := 25\<rparr>)) = 0 \<and>
   bpc (buy_click (upgradeDefs ! 0) (createNeonClicker\<lparr>bits := 25\<rparr>))
     = bpc (createNeonClicker\<lparr>bits := 25\<rparr>) + 1 \<and>
   core (upgrades (buy_click (upgradeDefs ! 0) (createNeonClicker\<lparr>bits := 25\<rparr>))) = 1"
proof -
  have 1: "u \<in> set upgradeDefs \<and> bits s < of_int (calcCost s u) \<longrightarrow> buy_click u s = s"
    by (simp add: buy_click_fail)
  have 2: "u \<in> set upgradeDefs \<and> bits s \<ge> of_int (calcCost s u) \<longrightarrow>
      buy_click u s =
        clicker_refreshMenuBadges (clicker_render (save
          (buy u (s\<lparr>bits := bits s - of_int (calcCost s u)\<rparr>)))) \<and>
      bits (buy_click u s) = bits s - of_int (calcCost s u) \<and>
      total_c (buy_click u s) = total_c s \<and>
      level (upgrades (buy_click u s)) (uid u) = level (upgrades s) (uid u) + 1 \<and>
      (\<forall>k. k \<noteq> uid u \<longrightarrow> level (upgrades (buy_click u s)) k = level (upgrades s) k) \<and>
      bpc (buy_click u s) = bpc s + (if uid u = ''core'' then 1 else 0) \<and>
      bps (buy_click u s) = bps s + (if uid u = ''drip'' then 1 else 0)"
    using buy_click_effect [of u s] buy_click_ok [of s u] by (simp add: not_less)
  have 3: "uid (upgradeDefs ! 0) = ''core''"
    by (simp add: upgradeDefs_def)
  have 4: "calcCost (createNeonClicker\<lparr>bits := 25\<rparr>) (upgradeDefs ! 0) = 25"
    by (simp add: calcCost_def createNeonClicker_def upgradeDefs_def level_def)
  have in0: "upgradeDefs ! 0 \<in> set upgradeDefs"
    by (simp add: upgradeDefs_def)
  have ok: "\<not> bits (createNeonClicker\<lparr>bits := 25\<rparr>)
      < of_int (calcCost (createNeonClicker\<lparr>bits := 25\<rparr>) (upgradeDefs ! 0))"
    by (simp add: 4)
  note e = buy_click_effect [OF in0 ok]
  have 5: "bits (buy_click (upgradeDefs ! 0) (createNeonClicker\<lparr>bits := 25\<rparr>)) = 0"
    using e by (simp add: 4)
  have 6: "bpc (buy_click (upgradeDefs ! 0) (createNeonClicker\<lparr>bits := 25\<rparr>))
     = bpc (createNeonClicker\<lparr>bits := 25\<rparr>) + 1"
    using e by (simp add: 3)
  have "level (upgrades (buy_click (upgradeDefs ! 0) (createNeonClicker\<lparr>bits := 25\<rparr>))) ''core''
      = level (upgrades (createNeonClicker\<lparr>bits := 25\<rparr>)) ''core'' + 1"
    using e by (simp add: 3)
  then have 7: "core (upgrades (buy_click (upgradeDefs ! 0) (createNeonClicker\<lparr>bits := 25\<rparr>))) = 1"
    by (simp add: level_def createNeonClicker_def)
  from 1 2 3 4 5 6 7 show ?thesis by blast
qed

text \<open>
  The purchase of Background Drip with \<open>59\<close> bits (one short of its cost, nothing happens)
  and with \<open>100\<close> bits (\<open>40\<close> are left), from the initial state.
\<close>

theorem buy_click_purchase_witness:
  "upgradeDefs ! 1 \<in> set upgradeDefs \<and>
   bits (createNeonClicker\<lparr>bits := 59\<rparr>)
     < of_int (calcCost (createNeonClicker\<lparr>bits := 59\<rparr>) (upgradeDefs ! 1)) \<and>
   buy_click (upgradeDefs ! 1) (createNeonClicker\<lparr>bits := 59\<rparr>) = createNeonClicker\<lparr>bits := 59\<rparr> \<and>
   bits (createNeonClicker\<lparr>bits := 100\<rparr>)
     \<ge> of_int (calcCost (createNeonClicker\<lparr>bits := 100\<rparr>) (upgradeDefs ! 1)) \<and>
   bits (buy_click (upgradeDefs ! 1) (createNeonClicker\<lparr>bits := 100\<rparr>)) = 40 \<and>
   bps (buy_click (upgradeDefs ! 1) (createNeonClicker\<lparr>bits := 100\<rparr>)) = 1 \<and>
   bpc (buy_click (upgradeDefs ! 1) (createNeonClicker\<lparr>bits := 100\<rparr>)) = 1"
proof -
  have in1: "upgradeDefs ! 1 \<in> set upgradeDefs"
    by (simp add: upgradeDefs_def)
  have u1: "uid (upgradeDefs ! 1) = ''drip''"
    by (simp add: upgradeDefs_def)
  have c59: "calcCost (createNeonClicker\<lparr>bits := 59\<rparr>) (upgradeDefs ! 1) = 60"
    by (simp add: calcCost_def createNeonClicker_def upgradeDefs_def level_def)
  have c100: "calcCost (createNeonClicker\<lparr>bits := 100\<rparr>) (upgradeDefs ! 1) = 60"
    by (simp add: calcCost_def createNeonClicker_def upgradeDefs_def level_def)
  have h1: "bits (createNeonClicker\<lparr>bits := 59\<rparr>)
     < of_int (calcCost (createNeonClicker\<lparr>bits := 59\<rparr>) (upgradeDefs ! 1))"
    using c59 by simp
  have h2: "bits (createNeonClicker\<lparr>bits := 100\<rparr>)
     \<ge> of_int (calcCost (createNeonClicker\<lparr>bits := 100\<rparr>) (upgradeDefs ! 1))"
    using c100 by simp
  from in1 h1 buy_click_purchase [where u = "upgradeDefs ! 1" and s = "createNeonClicker\<lparr>bits := 59\<rparr>"]
  have g1: "buy_click (upgradeDefs ! 1) (createNeonClicker\<lparr>bits := 59\<rparr>) = createNeonClicker\<lparr>bits := 59\<rparr>"
    by blast
  from in1 h2 buy_click_purchase [where u = "upgradeDefs ! 1" and s = "createNeonClicker\<lparr>bits := 100\<rparr>"]
  have g2: "bits (buy_click (upgradeDefs ! 1) (createNeonClicker\<lparr>bits := 100\<rparr>))
      = bits (createNeonClicker\<lparr>bits := 100\<rparr>)
        - of_int (calcCost (createNeonClicker\<lparr>bits := 100\<rparr>) (upgradeDefs ! 1)) \<and>
    bpc (buy_click (upgradeDefs ! 1) (createNeonClicker\<lparr>bits := 100\<rparr>))
      = bpc (createNeonClicker\<lparr>bits := 100\<rparr>) + (if uid (upgradeDefs ! 1) = ''core'' then 1 else 0) \<and>
    bps (buy_click (upgradeDefs ! 1) (createNeonClicker\<lparr>bits := 100\<rparr>))
      = bps (createNeonClicker\<lparr>bits := 100\<rparr>) + (if uid (upgradeDefs ! 1) = ''drip'' then 1 else 0)"
    by blast
  from g2 have g3: "bits (buy_click (upgradeDefs ! 1) (createNeonClicker\<lparr>bits := 100\<rparr>)) = 40 \<and>
   bps (buy_click (upgradeDefs ! 1) (createNeonClicker\<lparr>bits := 100\<rparr>)) = 1 \<and>
   bpc (buy_click (upgradeDefs ! 1) (createNeonClicker\<lparr>bits := 100\<rparr>)) = 1"
    using c100 u1 by (simp add: createNeonClicker_def)
  from in1 h1 h2 g1 g3 show ?thesis by blast
qed

subsection \<open>Neon Clicker: the accumulators\<close>

lemma clickGain_nonneg: "0 \<le> bpc s \<Longrightarrow> 0 \<le> fst (clickGain r s)"
  by (simp add: clickGain_def Let_def)

lemma click_effect:
  "bits (click r s) = bits s + fst (clickGain r s) \<and>
   total_c (click r s) = total_c s + fst (clickGain r s) \<and> bpc (click r s) = bpc s"
  by (simp add: click_def addBits_def Let_def clicker_effects split: prod.splits)

lemma passive_income_effect:
  "bits s \<le> bits (passive_income dt s) \<and> total_c s \<le> total_c (passive_income dt s) \<and>
   bpc (passive_income dt s) = bpc s"
  by (simp add: passive_income_def Let_def clicker_effects)

lemma clicker_loop_running:
  "\<not> paused_c s \<Longrightarrow>
     clicker_loop t s =
       passive_income (frame_dt t (last_c s))
         (s\<lparr>trace_c := trace_c s @ [RequestFrame], last_c := t\<rparr>)"
  by (auto simp add: clicker_loop_def Let_def frame_dt_def)

lemma clicker_loop_effect:
  "bits s \<le> bits (clicker_loop t s) \<and> total_c s \<le> total_c (clicker_loop t s) \<and>
   bpc (clicker_loop t s) = bpc s"
proof (cases "paused_c s")
  case True
  then show ?thesis by (simp add: clicker_loop_def Let_def)
next
  case False
  with passive_income_effect
    [of "s\<lparr>trace_c := trace_c s @ [RequestFrame], last_c := t\<rparr>" "frame_dt t (last_c s)"]
  show ?thesis by (simp add: clicker_loop_running)
qed

lemma calcCost_nonneg: "u \<in> set upgradeDefs \<Longrightarrow> 0 \<le> calcCost s u"
  by (auto simp add: calcCost_def upgradeDefs_def)

lemma nth_upgradeDefs: "i < length upgradeDefs \<Longrightarrow> upgradeDefs ! i \<in> set upgradeDefs"
  by simp

lemma buy_click_bpc: "u \<in> set upgradeDefs \<Longrightarrow> bpc s \<le> bpc (buy_click u s)"
  using buy_click_effect [of u s] buy_click_fail [of s u] by (cases "bits s < of_int (calcCost s u)") auto

lemma buy_click_total: "u \<in> set upgradeDefs \<Longrightarrow> total_c (buy_click u s) = total_c s"
  using buy_click_effect [of u s] buy_click_fail [of s u] by (cases "bits s < of_int (calcCost s u)") auto

lemma buy_click_bits:
  "u \<in> set upgradeDefs \<Longrightarrow> bits (buy_click u s) < bits s \<Longrightarrow>
     bits (buy_click u s) = bits s - of_int (calcCost s u)"
  using buy_click_effect [of u s] buy_click_fail [of s u] by (cases "bits s < of_int (calcCost s u)") auto

text \<open>One step that is not a restart, from a state with a click power that is not negative.\<close>

lemma clicker_step_effect:
  assumes "0 \<le> bpc s" "a \<noteq> ClickerRestart"
  shows "total_c s \<le> total_c (clicker_step a s) \<and>
    (bits (clicker_step a s) < bits s \<longrightarrow>
       (\<exists>i < length upgradeDefs. a = Buy i \<and>
          bits (clicker_step a s) = bits s - of_int (calcCost s (upgradeDefs ! i))))"
proof (cases a)
  case (Click r)
  with assms(1) clickGain_nonneg [of s r] click_effect [of r s] show ?thesis by simp
next
  case (Tick t)
  with clicker_loop_effect [of s t] show ?thesis by simp
next
  case (Buy i)
  show ?thesis
  proof (cases "i < length upgradeDefs")
    case True
    with Buy buy_click_total [of "upgradeDefs ! i" s] buy_click_bits [of "upgradeDefs ! i" s]
    show ?thesis by (simp add: nth_upgradeDefs)
  next
    case False
    with Buy show ?thesis by simp
  qed
next
  case ClickerRestart
  with assms(2) show ?thesis by simp
next
  case ClickerPause
  then show ?thesis by (simp add: clicker_togglePause_def)
qed

lemma clicker_step_bpc: "0 \<le> bpc s \<Longrightarrow> 0 \<le> bpc (clicker_step a s)"
proof (cases a)
  case (Click r)
  assume "0 \<le> bpc s"
  with Click click_effect [of r s] show ?thesis by simp
next
  case (Tick t)
  assume "0 \<le> bpc s"
  with Tick clicker_loop_effect [of s t] show ?thesis by simp
next
  case (Buy i)
  assume "0 \<le> bpc s"
  with Buy buy_click_bpc [of "upgradeDefs ! i" s] show ?thesis
    by (cases "i < length upgradeDefs") (auto simp add: nth_upgradeDefs)
next
  case ClickerRestart
  then show ?thesis by (simp add: clicker_restart_def clicker_effects)
next
  case ClickerPause
  assume "0 \<le> bpc s"
  with ClickerPause show ?thesis by (simp add: clicker_togglePause_def)
qed

lemma clicker_run_bpc: "0 \<le> bpc s \<Longrightarrow> 0 \<le> bpc (clicker_run as s)"
  by (induction as arbitrary: s) (simp_all add: clicker_step_bpc)

lemma clicker_run_total:
  "0 \<le> bpc s \<Longrightarrow> ClickerRestart \<notin> set as \<Longrightarrow> total_c s \<le> total_c (clicker_run as s)"
proof (induction as arbitrary: s)
  case Nil
  then show ?case by simp
next
  case (Cons a as)
  from Cons.prems have "total_c s \<le> total_c (clicker_step a s)"
    using clicker_step_effect [of s a] by auto
  moreover from Cons.prems have "total_c (clicker_step a s) \<le> total_c (clicker_run as (clicker_step a s))"
    using Cons.IH [of "clicker_step a s"] clicker_step_bpc [of s a] by simp
  ultimately show ?case by simp
qed

text \<open>
  Claim C2, as stated, fails: \<open>restart\<close> is one of the listed operations, and it sets
  both accumulators to \<open>0\<close>. After two clicks from the initial state \<open>total\<close> and \<open>bits\<close>
  are \<open>2\<close>; the restart that follows brings both down to \<open>0\<close>, and it is no purchase.
\<close>

theorem restart_lowers_total:
  "total_c (clicker_run [Click (1 / 2), Click (1 / 2)] createNeonClicker) = 2 \<and>
   bits (clicker_run [Click (1 / 2), Click (1 / 2)] createNeonClicker) = 2 \<and>
   total_c (clicker_run [Click (1 / 2), Click (1 / 2), ClickerRestart] createNeonClicker) = 0 \<and>
   bits (clicker_run [Click (1 / 2), Click (1 / 2), ClickerRestart] createNeonClicker) = 0"
  by (simp add: click_def clickGain_def addBits_def clicker_restart_def clamp_def
      createNeonClicker_def save_def clicker_render_def clicker_refreshMenuBadges_def Let_def)

text \<open>
  Claim C2, amended. Take any sequence of Neon Clicker operations (clicks, frames,
  presses on buy buttons, restarts, pause toggles), started in a state whose click power
  \<open>bpc\<close> is not negative, as it is initially. At every step of it that is not a restart,
  \<open>total\<close> does not decrease, and \<open>bits\<close> decreases only when the step is a purchase, and
  then by exactly the cost of that purchase. So \<open>total\<close> does not decrease over a sequence
  without restart. A restart sets \<open>total\<close> and \<open>bits\<close> to \<open>0\<close>.
\<close>

theorem total_and_bits:
  "(0 \<le> bpc s \<and> n < length as \<and> as ! n \<noteq> ClickerRestart \<longrightarrow>
      total_c (clicker_run (take n as) s)
        \<le> total_c (clicker_step (as ! n) (clicker_run (take n as) s)) \<and>
      (bits (clicker_step (as ! n) (clicker_run (take n as) s)) < bits (clicker_run (take n as) s)
         \<longrightarrow> (\<exists>i < length upgradeDefs. as ! n = Buy i \<and>
                bits (clicker_step (as ! n) (clicker_run (take n as) s))
                  = bits (clicker_run (take n as) s)
                    - of_int (calcCost (clicker_run (take n as) s) (upgradeDefs ! i))))) \<and>
   (0 \<le> bpc s \<and> ClickerRestart \<notin> set as \<longrightarrow> total_c s \<le> total_c (clicker_run as s)) \<and>
   total_c (clicker_restart s) = 0 \<and> bits (clicker_restart s) = 0"
proof -
  have 1: "0 \<le> bpc s \<and> n < length as \<and> as ! n \<noteq> ClickerRestart \<longrightarrow>
      total_c (clicker_run (take n as) s)
        \<le> total_c (clicker_step (as ! n) (clicker_run (take n as) s)) \<and>
      (bits (clicker_step (as ! n) (clicker_run (take n as) s)) < bits (clicker_run (take n as) s)
         \<longrightarrow> (\<exists>i < length upgradeDefs. as ! n = Buy i \<and>
                bits (clicker_step (as ! n) (clicker_run (take n as) s))
                  = bits (clicker_run (take n as) s)
                    - of_int (calcCost (clicker_run (take n as) s) (upgradeDefs ! i))))"
    using clicker_step_effect [of "clicker_run (take n as) s" "as ! n"]
      clicker_run_bpc [of s "take n as"] by blast
  have 2: "0 \<le> bpc s \<and> ClickerRestart \<notin> set as \<longrightarrow> total_c s \<le> total_c (clicker_run as s)"
    using clicker_run_total [of s as] by blast
  have 3: "total_c (clicker_restart s) = 0 \<and> bits (clicker_restart s) = 0"
    by (simp add: clicker_restart_def clicker_effects)
  from 1 2 3 show ?thesis by blast
qed

text \<open>
  The amended claim on a click followed by the purchase of Core Boost, from \<open>30\<close> bits:
  the purchase is the step that lowers \<open>bits\<close>, from \<open>31\<close> by the cost \<open>25\<close>.
\<close>

theorem total_and_bits_witness:
  "0 \<le> bpc clicker_30 \<and> 1 < length [Click (1 / 2), Buy 0] \<and>
   [Click (1 / 2), Buy 0] ! 1 \<noteq> ClickerRestart \<and>
   ClickerRestart \<notin> set [Click (1 / 2), Buy 0] \<and>
   bits (clicker_run (take 1 [Click (1 / 2), Buy 0]) clicker_30) = 31 \<and>
   bits (clicker_step ([Click (1 / 2), Buy 0] ! 1)
           (clicker_run (take 1 [Click (1 / 2), Buy 0]) clicker_30)) = 6 \<and>
   total_c (clicker_run (take 1 [Click (1 / 2), Buy 0]) clicker_30)
     \<le> total_c (clicker_step ([Click (1 / 2), Buy 0] ! 1)
                  (clicker_run (take 1 [Click (1 / 2), Buy 0]) clicker_30)) \<and>
   (\<exists>i < length upgradeDefs. [Click (1 / 2), Buy 0] ! 1 = Buy i \<and>
      bits (clicker_step ([Click (1 / 2), Buy 0] ! 1)
              (clicker_run (take 1 [Click (1 / 2), Buy 0]) clicker_30))
        = bits (clicker_run (take 1 [Click (1 / 2), Buy 0]) clicker_30)
          - of_int (calcCost (clicker_run (take 1 [Click (1 / 2), Buy 0]) clicker_30)
                      (upgradeDefs ! i))) \<and>
   total_c clicker_30 \<le> total_c (clicker_run [Click (1 / 2), Buy 0] clicker_30)"
proof -
  have h: "0 \<le> bpc clicker_30 \<and> 1 < length [Click (1 / 2), Buy 0] \<and>
     [Click (1 / 2), Buy 0] ! 1 \<noteq> ClickerRestart \<and>
     ClickerRestart \<notin> set [Click (1 / 2), Buy 0]"
    by (simp add: clicker_30_def createNeonClicker_def)
  have b1: "bits (clicker_run (take 1 [Click (1 / 2), Buy 0]) clicker_30) = 31"
    by (simp add: clicker_30_def click_def clickGain_def addBits_def clamp_def
        createNeonClicker_def save_def clicker_render_def clicker_refreshMenuBadges_def Let_def)
  have b2: "bits (clicker_step ([Click (1 / 2), Buy 0] ! 1)
           (clicker_run (take 1 [Click (1 / 2), Buy 0]) clicker_30)) = 6"
    by (simp add: clicker_30_def click_def clickGain_def addBits_def clamp_def
        createNeonClicker_def save_def clicker_render_def clicker_refreshMenuBadges_def Let_def
        buy_click_def calcCost_def level_def upgradeDefs_def)
  from b1 b2 have lt: "bits (clicker_step ([Click (1 / 2), Buy 0] ! 1)
           (clicker_run (take 1 [Click (1 / 2), Buy 0]) clicker_30))
      < bits (clicker_run (take 1 [Click (1 / 2), Buy 0]) clicker_30)"
    by simp
  from h lt total_and_bits [where s = clicker_30 and n = 1 and as = "[Click (1 / 2), Buy 0]"]
  have g: "total_c (clicker_run (take 1 [Click (1 / 2), Buy 0]) clicker_30)
     \<le> total_c (clicker_step ([Click (1 / 2), Buy 0] ! 1)
                  (clicker_run (take 1 [Click (1 / 2), Buy 0]) clicker_30)) \<and>
   (\<exists>i < length upgradeDefs. [Click (1 / 2), Buy 0] ! 1 = Buy i \<and>
      bits (clicker_step ([Click (1 / 2), Buy 0] ! 1)
              (clicker_run (take 1 [Click (1 / 2), Buy 0]) clicker_30))
        = bits (clicker_run (take 1 [Click (1 / 2), Buy 0]) clicker_30)
          - of_int (calcCost (clicker_run (take 1 [Click (1 / 2), Buy 0]) clicker_30)
                      (upgradeDefs ! i))) \<and>
   total_c clicker_30 \<le> total_c (clicker_run [Click (1 / 2), Buy 0] clicker_30)"
    by blast
  from h b1 b2 g show ?thesis by blast
qed

subsection \<open>Glitch React: the response window and ignored input\<close>

lemma newTarget_timeLeft:
  "timeLeft (newTarget r s) = clamp (1.55 - real (streak s) * 0.03) 0.55 1.55"
  by (simp add: newTarget_def react_render_def Let_def)

lemma hit_timeLeft:
  "live s \<and> \<not> paused_g s \<and> i = targetIndex s \<Longrightarrow>
     timeLeft (hit i r s) = clamp (1.55 - real (streak s + 1) * 0.03) 0.55 1.55
     \<and> streak (hit i r s) = streak s + 1"
  by (simp add: hit_def newTarget_def react_render_def Let_def)

text \<open>
  Claim C8. \<open>newTarget\<close> sets the response window \<open>timeLeft\<close> to
  \<open>clamp(1.55 - streak * 0.03, 0.55, 1.55)\<close> for the streak at the time of the call; a
  correct input raises the streak by one and then calls \<open>newTarget\<close>, so the window for
  the next target is computed from the new streak. The window is never below \<open>0.55\<close>
  and, for a streak of \<open>40\<close> or more, it is exactly \<open>0.55\<close>.
\<close>

theorem response_window:
  "timeLeft (newTarget r s) = clamp (1.55 - real (streak s) * 0.03) 0.55 1.55 \<and>
   0.55 \<le> timeLeft (newTarget r s) \<and>
   (40 \<le> streak s \<longrightarrow> timeLeft (newTarget r s) = 0.55) \<and>
   (live s \<and> \<not> paused_g s \<and> i = targetIndex s \<longrightarrow>
      streak (hit i r s) = streak s + 1 \<and>
      timeLeft (hit i r s) = clamp (1.55 - real (streak (hit i r s)) * 0.03) 0.55 1.55)"
proof -
  have 1: "timeLeft (newTarget r s) = clamp (1.55 - real (streak s) * 0.03) 0.55 1.55"
    by (rule newTarget_timeLeft)
  have 2: "0.55 \<le> timeLeft (newTarget r s)"
    by (simp add: newTarget_timeLeft clamp_def)
  have 3: "40 \<le> streak s \<longrightarrow> timeLeft (newTarget r s) = 0.55"
  proof
    assume "40 \<le> streak s"
    then have "40 \<le> real (streak s)" by simp
    then have "1.55 - real (streak s) * 0.03 \<le> 0.55" by simp
    then show "timeLeft (newTarget r s) = 0.55"
      by (simp add: newTarget_timeLeft clamp_def)
  qed
  have 4: "live s \<and> \<not> paused_g s \<and> i = targetIndex s \<longrightarrow>
      streak (hit i r s) = streak s + 1 \<and>
      timeLeft (hit i r s) = clamp (1.55 - real (streak (hit i r s)) * 0.03) 0.55 1.55"
    using hit_timeLeft [of s i r] by simp
  from 1 2 3 4 show ?thesis by blast
qed

text \<open>
  The window at a streak of \<open>40\<close>, and after the correct input that makes the streak \<open>41\<close>.
\<close>

theorem response_window_witness:
  "40 \<le> streak react_40 \<and> timeLeft (newTarget (1 / 2) react_40) = 0.55 \<and>
   live react_40 \<and> \<not> paused_g react_40 \<and> 2 = targetIndex react_40 \<and>
   streak (hit 2 (1 / 2) react_40) = 41 \<and>
   timeLeft (hit 2 (1 / 2) react_40) = 0.55"
proof -
  have h: "40 \<le> streak react_40 \<and> streak react_40 + 1 = 41 \<and>
      live react_40 \<and> \<not> paused_g react_40 \<and> 2 = targetIndex react_40"
    by (simp add: react_40_def start_def newTarget_def react_render_def createGlitchReact_def
        Let_def)
  note a = response_window [where s = react_40 and r = "1 / 2" and i = 2]
  from h a have s41: "streak (hit 2 (1 / 2) react_40) = 41"
    by simp
  from h a have "timeLeft (hit 2 (1 / 2) react_40)
      = clamp (1.55 - real (streak (hit 2 (1 / 2) react_40)) * 0.03) 0.55 1.55"
    by blast
  then have t41: "timeLeft (hit 2 (1 / 2) react_40) = 0.55"
    by (simp add: s41 clamp_def)
  from h a have "timeLeft (newTarget (1 / 2) react_40) = 0.55"
    by blast
  with h s41 t41 show ?thesis by blast
qed

text \<open>
  Claim C10. A target-select input that arrives while the session is paused or not live
  returns at once: \<open>hit\<close> gives back the state it was given, so the streak, the target
  index, the timer, the response window, the live flag, the best, the store and the trace
  of renders are all as before; the session is not ended and nothing is saved.
\<close>

theorem ignored_hit:
  "\<not> live s \<or> paused_g s \<Longrightarrow> hit i r s = s"
  by (simp add: hit_def)

text \<open>
  A press on a wrong pad while paused, and a press on any pad before the session starts.
\<close>

theorem ignored_hit_witness:
  "paused_g paused_react \<and> live paused_react \<and> 0 \<noteq> targetIndex paused_react \<and>
   hit 0 (1 / 2) paused_react = paused_react \<and>
   \<not> live (createGlitchReact Map.empty) \<and>
   hit 0 (1 / 2) (createGlitchReact Map.empty) = createGlitchReact Map.empty"
proof -
  have h1: "paused_g paused_react \<and> live paused_react \<and> 0 \<noteq> targetIndex paused_react"
    by (simp add: paused_react_def react_togglePause_def start_def newTarget_def
        react_render_def createGlitchReact_def Let_def)
  have h2: "\<not> live (createGlitchReact Map.empty)"
    by (simp add: createGlitchReact_def)
  from h1 have g1: "hit 0 (1 / 2) paused_react = paused_react"
    using ignored_hit [of paused_react 0 "1 / 2"] by blast
  from h2 have g2: "hit 0 (1 / 2) (createGlitchReact Map.empty) = createGlitchReact Map.empty"
    using ignored_hit [of "createGlitchReact Map.empty" 0 "1 / 2"] by blast
  from h1 h2 g1 g2 show ?thesis by blast
qed

subsection \<open>Byte Runner: the update tick\<close>

text \<open>The state on which the collision loop runs.\<close>

lemma pre_collision_fields:
  "distance (cull (move_obstacles dt (spawn dt rnd (scoring dt (ramp dt s)))))
     = distance s + speed s * dt"
  "speed (cull (move_obstacles dt (spawn dt rnd (scoring dt (ramp dt s)))))
     = speed s + speedGain * dt"
  "spawnEvery (cull (move_obstacles dt (spawn dt rnd (scoring dt (ramp dt s)))))
     = clamp (0.85 - (distance s + speed s * dt) / 80000) 0.35 0.85"
  "score (cull (move_obstacles dt (spawn dt rnd (scoring dt (ramp dt s)))))
     = score s + (12 + (speed s + speedGain * dt) * 0.05) * dt"
  "alive (cull (move_obstacles dt (spawn dt rnd (scoring dt (ramp dt s))))) = alive s"
  "best_r (cull (move_obstacles dt (spawn dt rnd (scoring dt (ramp dt s))))) = best_r s"
  "stored_r (cull (move_obstacles dt (spawn dt rnd (scoring dt (ramp dt s))))) = stored_r s"
  "playerLane (cull (move_obstacles dt (spawn dt rnd (scoring dt (ramp dt s)))))
     = playerLane s"
  by (simp_all add: cull_def move_obstacles_def spawn_def spawnObstacle_def scoring_def
      ramp_def Let_def)

lemma collision_fields:
  "distance (collision obs s) = distance s" "speed (collision obs s) = speed s"
  "spawnEvery (collision obs s) = spawnEvery s" "score (collision obs s) = score s"
  "obstacles (collision obs s) = obstacles s" "playerLane (collision obs s) = playerLane s"
  by (induction obs) (simp_all add: Let_def)

lemma hits_collision: "hits (collision obs s) ob = hits s ob"
  by (simp add: hits_def collision_fields)

lemma collision_alive: "alive (collision obs s) \<longleftrightarrow> alive s \<and> \<not> (\<exists>ob \<in> set obs. hits s ob)"
  by (induction obs) (simp_all add: Let_def)

lemma collision_best:
  "best_r (collision obs s)
     = (if \<exists>ob \<in> set obs. hits s ob then max (best_r s) \<lfloor>score s\<rfloor> else best_r s)"
  by (induction obs) (simp_all add: Let_def)

lemma collision_stored:
  "stored_r (collision obs s)
     = (if \<exists>ob \<in> set obs. hits s ob
        then (stored_r s)(runner_KEY \<mapsto> max (best_r s) \<lfloor>score s\<rfloor>) else stored_r s)"
  by (induction obs) (auto simp add: Let_def fun_eq_iff)

lemma runner_update_alive:
  "alive s \<Longrightarrow>
     runner_update dt rnd s =
       collision (obstacles (cull (move_obstacles dt (spawn dt rnd (scoring dt (ramp dt s))))))
         (cull (move_obstacles dt (spawn dt rnd (scoring dt (ramp dt s)))))"
  by (simp add: runner_update_def Let_def)

text \<open>
  Claim C4. On an update tick with timestep \<open>dt\<close> of a session that is alive, in the
  order of the program: \<open>distance\<close> grows by \<open>speed * dt\<close>; then \<open>speed\<close> grows by
  \<open>speedGain * dt\<close>, with \<open>speedGain = 10\<close>, so that it does not decrease when \<open>dt\<close> is
  not negative; \<open>spawnEvery\<close> becomes \<open>clamp(0.85 - distance / 80000, 0.35, 0.85)\<close> for the
  distance just computed; and \<open>score\<close> grows by \<open>(12 + speed * 0.05) * dt\<close> for the speed
  just computed.
\<close>

theorem update_ramp:
  "alive s \<longrightarrow>
     distance (runner_update dt rnd s) = distance s + speed s * dt \<and>
     speed (runner_update dt rnd s) = speed s + speedGain * dt \<and>
     speedGain = 10 \<and>
     (0 \<le> dt \<longrightarrow> speed s \<le> speed (runner_update dt rnd s)) \<and>
     spawnEvery (runner_update dt rnd s)
       = clamp (0.85 - distance (runner_update dt rnd s) / 80000) 0.35 0.85 \<and>
     score (runner_update dt rnd s)
       = score s + (12 + speed (runner_update dt rnd s) * 0.05) * dt"
  by (simp add: runner_update_alive collision_fields pre_collision_fields speedGain_def)

text \<open>The first update of a fresh session with a timestep of 16 ms.\<close>

theorem update_ramp_witness:
  "alive fresh_runner \<and> (0::real) \<le> 0.016 \<and>
   distance (runner_update 0.016 rnd_half fresh_runner) = 1.76 \<and>
   speed (runner_update 0.016 rnd_half fresh_runner) = 110.16 \<and>
   speed fresh_runner \<le> speed (runner_update 0.016 rnd_half fresh_runner) \<and>
   spawnEvery (runner_update 0.016 rnd_half fresh_runner) = 0.849978 \<and>
   score (runner_update 0.016 rnd_half fresh_runner) = (12 + 110.16 * 0.05) * 0.016"
proof -
  have h: "alive fresh_runner \<and> (0::real) \<le> 0.016 \<and> distance fresh_runner = 0 \<and>
      speed fresh_runner = 110 \<and> score fresh_runner = 0"
    by (simp add: fresh_runner_def runner_mount_def stop_def runner_reset_def draw_def
        createByteRunner_def Let_def)
  note a = update_ramp [where s = fresh_runner and dt = "0.016" and rnd = rnd_half]
  from h a have "distance (runner_update 0.016 rnd_half fresh_runner)
      = distance fresh_runner + speed fresh_runner * 0.016"
    by blast
  with h have d: "distance (runner_update 0.016 rnd_half fresh_runner) = 1.76"
    by simp
  from h a have "speed (runner_update 0.016 rnd_half fresh_runner)
      = speed fresh_runner + speedGain * 0.016"
    by blast
  with h have v: "speed (runner_update 0.016 rnd_half fresh_runner) = 110.16"
    by (simp add: speedGain_def)
  from h a have m: "speed fresh_runner \<le> speed (runner_update 0.016 rnd_half fresh_runner)"
    by blast
  from h a have "spawnEvery (runner_update 0.016 rnd_half fresh_runner)
      = clamp (0.85 - distance (runner_update 0.016 rnd_half fresh_runner) / 80000) 0.35 0.85"
    by blast
  then have e: "spawnEvery (runner_update 0.016 rnd_half fresh_runner) = 0.849978"
    unfolding d clamp_def by simp
  from h a have "score (runner_update 0.016 rnd_half fresh_runner)
      = score fresh_runner + (12 + speed (runner_update 0.016 rnd_half fresh_runner) * 0.05) * 0.016"
    by blast
  then have c: "score (runner_update 0.016 rnd_half fresh_runner) = (12 + 110.16 * 0.05) * 0.016"
    unfolding v using h by simp
  from h d v m e c show ?thesis by blast
qed

subsection \<open>Byte Runner: collision and the best score\<close>

lemma runner_update_death:
  "alive (runner_update dt rnd s) \<longleftrightarrow>
     alive s \<and> \<not> (\<exists>ob \<in> set (obstacles (runner_update dt rnd s)). hits (runner_update dt rnd s) ob)"
proof (cases "alive s")
  case True
  then show ?thesis
    by (simp add: runner_update_alive collision_alive collision_fields hits_collision
        pre_collision_fields)
next
  case False
  then show ?thesis by (simp add: runner_update_def)
qed

lemma runner_update_best:
  "best_r (runner_update dt rnd s)
     = (if alive s \<and> \<not> alive (runner_update dt rnd s)
        then max (best_r s) \<lfloor>score (runner_update dt rnd s)\<rfloor> else best_r s)"
proof (cases "alive s")
  case True
  then show ?thesis
    by (simp add: runner_update_alive collision_alive collision_best collision_fields
        pre_collision_fields)
next
  case False
  then show ?thesis by (simp add: runner_update_def)
qed

lemma runner_update_stored:
  "stored_r (runner_update dt rnd s)
     = (if alive s \<and> \<not> alive (runner_update dt rnd s)
        then (stored_r s)(runner_KEY \<mapsto> best_r (runner_update dt rnd s)) else stored_r s)"
proof (cases "alive s")
  case True
  then show ?thesis
    by (simp add: runner_update_alive collision_alive collision_best collision_stored
        collision_fields pre_collision_fields)
next
  case False
  then show ?thesis by (simp add: runner_update_def)
qed

text \<open>A frame on which the update runs.\<close>

lemma runner_loop_running:
  "running s \<and> \<not> paused_r s \<and> alive s \<Longrightarrow>
     runner_loop t rnd s =
       draw (frame_dt t (lastT s))
         (runner_update (frame_dt t (lastT s)) rnd
            (s\<lparr>trace_r := trace_r s @ [RequestFrame], lastT := t\<rparr>))"
  by (auto simp add: runner_loop_def Let_def frame_dt_def)

lemma runner_loop_idle:
  "\<not> (running s \<and> \<not> paused_r s \<and> alive s) \<Longrightarrow>
     alive (runner_loop t rnd s) = alive s \<and> best_r (runner_loop t rnd s) = best_r s \<and>
     stored_r (runner_loop t rnd s) = stored_r s"
  by (auto simp add: runner_loop_def Let_def draw_def)

text \<open>What one step does to the best score and to the store.\<close>

lemma runner_loop_best:
  "best_r (runner_loop t rnd s)
     = (if alive s \<and> \<not> alive (runner_loop t rnd s)
        then max (best_r s) \<lfloor>score (runner_loop t rnd s)\<rfloor> else best_r s) \<and>
   stored_r (runner_loop t rnd s)
     = (if alive s \<and> \<not> alive (runner_loop t rnd s)
        then (stored_r s)(runner_KEY \<mapsto> best_r (runner_loop t rnd s)) else stored_r s)"
proof (cases "running s \<and> \<not> paused_r s \<and> alive s")
  case True
  then show ?thesis
    using runner_update_best
      [of "frame_dt t (lastT s)" rnd "s\<lparr>trace_r := trace_r s @ [RequestFrame], lastT := t\<rparr>"]
      runner_update_stored
      [of "frame_dt t (lastT s)" rnd "s\<lparr>trace_r := trace_r s @ [RequestFrame], lastT := t\<rparr>"]
    by (simp add: runner_loop_running draw_def)
next
  case False
  then show ?thesis using runner_loop_idle [of s t rnd] by simp
qed

lemma runner_step_best:
  "best_r (runner_step a s)
     = (if alive s \<and> \<not> alive (runner_step a s)
        then max (best_r s) \<lfloor>score (runner_step a s)\<rfloor> else best_r s) \<and>
   stored_r (runner_step a s)
     = (if alive s \<and> \<not> alive (runner_step a s)
        then (stored_r s)(runner_KEY \<mapsto> best_r (runner_step a s)) else stored_r s)"
proof (cases a)
  case (Frame t rnd)
  then show ?thesis using runner_loop_best [of t rnd s] by simp
next
  case Restart
  then show ?thesis by (simp add: runner_reset_def draw_def)
next
  case EnterKey
  then show ?thesis by (simp add: runner_reset_def draw_def)
next
  case (MoveLane dir)
  then show ?thesis by (simp add: moveLane_def)
next
  case TogglePause
  then show ?thesis by (simp add: runner_togglePause_def)
next
  case Mount
  then show ?thesis by (simp add: runner_mount_def stop_def runner_reset_def draw_def Let_def)
next
  case Unmount
  then show ?thesis by (simp add: stop_def)
qed

lemma runner_run_best: "best_r (runner_run as s) = fold max (final_scores as s) (best_r s)"
proof (induction as arbitrary: s)
  case Nil
  then show ?case by simp
next
  case (Cons a as)
  show ?case using Cons.IH [of "runner_step a s"] runner_step_best [of a s]
    by (simp add: Let_def max.commute)
qed

lemma runner_run_stored:
  "stored_r (runner_run as s)
     = (if final_scores as s = [] then stored_r s
        else (stored_r s)(runner_KEY \<mapsto> best_r (runner_run as s)))"
proof (induction as arbitrary: s)
  case Nil
  then show ?case by simp
next
  case (Cons a as)
  show ?case
    using Cons.IH [of "runner_step a s"] runner_step_best [of a s]
      runner_run_best [of as "runner_step a s"]
    by (auto simp add: Let_def fun_eq_iff)
qed

lemma fold_max_Max: "fold max xs (b::int) = Max (insert b (set xs))"
  using Max.set_eq_fold [of b xs] by simp

text \<open>
  Claim C5. The collision loop tests the player's box, \<open>28\<close> by \<open>28\<close> with its left edge
  \<open>14\<close> left of the lane's x and its top \<open>70\<close> above the bottom, against each obstacle's
  box, \<open>36\<close> wide with its left edge \<open>18\<close> left of its lane's x, as high as the obstacle.
  On an update tick of a session that is alive, the session is dead after the tick
  exactly when one of the obstacles then on the field overlaps the player; in that case
  \<open>best\<close> is the larger of the former \<open>best\<close> and the floored score, and it is written to
  the store. Otherwise \<open>best\<close> and the store are as before. So after any sequence of
  events (frames, restarts, lane shifts, pauses, mounts) \<open>best\<close> is the largest of the
  former \<open>best\<close> and the floored scores at which sessions ended; it is what the store
  holds as soon as one session has ended; the \<open>best\<close> of a new engine is the stored
  value, or \<open>0\<close> when there is none; and from then on \<open>best\<close> is always the stored value
  (or \<open>0\<close> when there is none), so that the maximum is taken with the stored best.
\<close>

theorem collision_and_best:
  "hits s ob = rectsOverlap (laneX (playerLane s) - 14) (H - 70) 28 28
                 (laneX (o_lane ob) - 18) (o_y ob) 36 (o_h ob) \<and>
   (alive s \<longrightarrow>
      (\<not> alive (runner_update dt rnd s) \<longleftrightarrow>
         (\<exists>ob \<in> set (obstacles (runner_update dt rnd s)). hits (runner_update dt rnd s) ob)) \<and>
      (\<not> alive (runner_update dt rnd s) \<longrightarrow>
         best_r (runner_update dt rnd s)
           = max (best_r s) \<lfloor>score (runner_update dt rnd s)\<rfloor> \<and>
         stored_r (runner_update dt rnd s) runner_KEY = Some (best_r (runner_update dt rnd s))) \<and>
      (alive (runner_update dt rnd s) \<longrightarrow>
         best_r (runner_update dt rnd s) = best_r s \<and>
         stored_r (runner_update dt rnd s) = stored_r s)) \<and>
   best_r (runner_run as s) = Max (insert (best_r s) (set (final_scores as s))) \<and>
   (final_scores as s \<noteq> [] \<longrightarrow>
      stored_r (runner_run as s) runner_KEY = Some (best_r (runner_run as s))) \<and>
   (final_scores as s = [] \<longrightarrow> stored_r (runner_run as s) = stored_r s) \<and>
   best_r (createByteRunner st) = (case st runner_KEY of None \<Rightarrow> 0 | Some b \<Rightarrow> b) \<and>
   best_r (runner_run as (createByteRunner st))
     = (case stored_r (runner_run as (createByteRunner st)) runner_KEY of
          None \<Rightarrow> 0 | Some b \<Rightarrow> b)"
proof -
  have 1: "hits s ob = rectsOverlap (laneX (playerLane s) - 14) (H - 70) 28 28
                 (laneX (o_lane ob) - 18) (o_y ob) 36 (o_h ob)"
    by (simp add: hits_def)
  have 2: "alive s \<longrightarrow>
      (\<not> alive (runner_update dt rnd s) \<longleftrightarrow>
         (\<exists>ob \<in> set (obstacles (runner_update dt rnd s)). hits (runner_update dt rnd s) ob))"
    using runner_update_death [of dt rnd s] by blast
  have 3: "alive s \<longrightarrow> \<not> alive (runner_update dt rnd s) \<longrightarrow>
         best_r (runner_update dt rnd s)
           = max (best_r s) \<lfloor>score (runner_update dt rnd s)\<rfloor> \<and>
         stored_r (runner_update dt rnd s) runner_KEY = Some (best_r (runner_update dt rnd s))"
    using runner_update_best [of dt rnd s] runner_update_stored [of dt rnd s] by simp
  have 4: "alive s \<longrightarrow> alive (runner_update dt rnd s) \<longrightarrow>
         best_r (runner_update dt rnd s) = best_r s \<and>
         stored_r (runner_update dt rnd s) = stored_r s"
    using runner_update_best [of dt rnd s] runner_update_stored [of dt rnd s] by simp
  have 5: "best_r (runner_run as s) = Max (insert (best_r s) (set (final_scores as s)))"
    by (simp add: runner_run_best fold_max_Max)
  have 6: "final_scores as s \<noteq> [] \<longrightarrow>
      stored_r (runner_run as s) runner_KEY = Some (best_r (runner_run as s))"
    by (simp add: runner_run_stored)
  have 7: "final_scores as s = [] \<longrightarrow> stored_r (runner_run as s) = stored_r s"
    by (simp add: runner_run_stored)
  have 8: "best_r (createByteRunner st) = (case st runner_KEY of None \<Rightarrow> 0 | Some b \<Rightarrow> b)"
    by (simp add: createByteRunner_def)
  have 9: "best_r (runner_run as (createByteRunner st))
     = (case stored_r (runner_run as (createByteRunner st)) runner_KEY of
          None \<Rightarrow> 0 | Some b \<Rightarrow> b)"
  proof (cases "final_scores as (createByteRunner st) = []")
    case True
    then show ?thesis
      by (simp add: runner_run_stored runner_run_best createByteRunner_def)
  next
    case False
    then show ?thesis by (simp add: runner_run_stored)
  qed
  from 1 2 3 4 5 6 7 8 9 show ?thesis by blast
qed

lemmas runner_eval =
  doomed_runner_def fresh_runner_def runner_mount_def stop_def runner_reset_def draw_def
  createByteRunner_def Let_def runner_loop_def runner_update_def cull_def move_obstacles_def
  spawn_def spawnObstacle_def scoring_def ramp_def hits_def rectsOverlap_def laneX_def W_def
  H_def clamp_def speedGain_def rnd_half_def

text \<open>
  A session with an obstacle on the player dies on its next update, at a score whose
  floor is \<open>41\<close>, and \<open>41\<close> is stored; the run that goes on with a restart and another
  frame ends with that best. A fresh session, with no obstacle, survives its update, and
  its best and the store stay as they were.
\<close>

theorem collision_and_best_witness:
  "alive doomed_runner \<and> \<not> alive (runner_update 0.016 rnd_half doomed_runner) \<and>
   (\<exists>ob \<in> set (obstacles (runner_update 0.016 rnd_half doomed_runner)).
      hits (runner_update 0.016 rnd_half doomed_runner) ob) \<and>
   best_r (runner_update 0.016 rnd_half doomed_runner)
     = max (best_r doomed_runner) \<lfloor>score (runner_update 0.016 rnd_half doomed_runner)\<rfloor> \<and>
   stored_r (runner_update 0.016 rnd_half doomed_runner) runner_KEY
     = Some (best_r (runner_update 0.016 rnd_half doomed_runner)) \<and>
   final_scores [Frame 16 rnd_half, Restart, Frame 32 rnd_half] doomed_runner = [41] \<and>
   best_r (runner_run [Frame 16 rnd_half, Restart, Frame 32 rnd_half] doomed_runner) = 41 \<and>
   stored_r (runner_run [Frame 16 rnd_half, Restart, Frame 32 rnd_half] doomed_runner) runner_KEY
     = Some 41 \<and>
   alive fresh_runner \<and> alive (runner_update 0.016 rnd_half fresh_runner) \<and>
   best_r (runner_update 0.016 rnd_half fresh_runner) = best_r fresh_runner \<and>
   final_scores [Frame 16 rnd_half] fresh_runner = [] \<and>
   stored_r (runner_run [Frame 16 rnd_half] fresh_runner) = stored_r fresh_runner"
proof -
  have h1: "alive doomed_runner \<and> \<not> alive (runner_update 0.016 rnd_half doomed_runner)"
    by (simp add: runner_eval)
  have h2: "final_scores [Frame 16 rnd_half, Restart, Frame 32 rnd_half] doomed_runner = [41]"
    by (simp add: runner_eval)
  have h3: "best_r doomed_runner = 0"
    by (simp add: runner_eval)
  have h4: "alive fresh_runner \<and> alive (runner_update 0.016 rnd_half fresh_runner)"
    by (simp add: runner_eval)
  have h5: "final_scores [Frame 16 rnd_half] fresh_runner = []"
    by (simp add: runner_eval)
  note a = collision_and_best [where s = doomed_runner and dt = "0.016" and rnd = rnd_half
      and as = "[Frame 16 rnd_half, Restart, Frame 32 rnd_half]"]
  note b = collision_and_best [where s = fresh_runner and dt = "0.016" and rnd = rnd_half
      and as = "[Frame 16 rnd_half]"]
  from h1 a have g1: "(\<exists>ob \<in> set (obstacles (runner_update 0.016 rnd_half doomed_runner)).
      hits (runner_update 0.016 rnd_half doomed_runner) ob) \<and>
   best_r (runner_update 0.016 rnd_half doomed_runner)
     = max (best_r doomed_runner) \<lfloor>score (runner_update 0.016 rnd_half doomed_runner)\<rfloor> \<and>
   stored_r (runner_update 0.016 rnd_half doomed_runner) runner_KEY
     = Some (best_r (runner_update 0.016 rnd_half doomed_runner))"
    by blast
  from a have "best_r (runner_run [Frame 16 rnd_half, Restart, Frame 32 rnd_half] doomed_runner)
      = Max (insert (best_r doomed_runner)
          (set (final_scores [Frame 16 rnd_half, Restart, Frame 32 rnd_half] doomed_runner)))"
    by blast
  then have g2: "best_r (runner_run [Frame 16 rnd_half, Restart, Frame 32 rnd_half] doomed_runner) = 41"
    unfolding h2 h3 by simp
  from h2 have "final_scores [Frame 16 rnd_half, Restart, Frame 32 rnd_half] doomed_runner \<noteq> []"
    by simp
  with a have "stored_r (runner_run [Frame 16 rnd_half, Restart, Frame 32 rnd_half] doomed_runner)
      runner_KEY
    = Some (best_r (runner_run [Frame 16 rnd_half, Restart, Frame 32 rnd_half] doomed_runner))"
    by blast
  then have g3: "stored_r (runner_run [Frame 16 rnd_half, Restart, Frame 32 rnd_half] doomed_runner)
      runner_KEY = Some 41"
    unfolding g2 .
  from h4 b have g4: "best_r (runner_update 0.016 rnd_half fresh_runner) = best_r fresh_runner"
    by blast
  from h5 b have g5: "stored_r (runner_run [Frame 16 rnd_half] fresh_runner) = stored_r fresh_runner"
    by blast
  from h1 h2 h4 h5 g1 g2 g3 g4 g5 show ?thesis by blast
qed

subsection \<open>The frame loop: the timestep\<close>

lemma react_loop_running:
  "live s \<and> \<not> paused_g s \<Longrightarrow>
     react_loop t s =
       countdown (frame_dt t (last_g s))
         (s\<lparr>trace_g := trace_g s @ [RequestFrame], last_g := t\<rparr>)"
  by (auto simp add: react_loop_def Let_def frame_dt_def)

text \<open>
  Claim C9, as stated, fails for a tick whose stored timestamp is \<open>0\<close>, which is how
  \<open>reset()\<close> leaves it. Byte Runner gets a frame at \<open>1000\<close> ms, is restarted, and gets its
  next frame at \<open>6000\<close> ms: \<open>5000\<close> ms have elapsed since the last tick, the minimum of
  \<open>0.05\<close> and \<open>5\<close> seconds is \<open>0.05\<close>, but the update and the draw of that frame are given
  \<open>dt = 0\<close>: the frame draws with \<open>0\<close> and the distance, which grows by \<open>110 * dt\<close>, is
  still \<open>0\<close>.
\<close>

theorem restart_then_frame_has_zero_dt:
  "lastT (runner_run [Frame 1000 rnd_half] fresh_runner) = 1000 \<and>
   running (runner_run [Frame 1000 rnd_half, Restart] fresh_runner) \<and>
   \<not> paused_r (runner_run [Frame 1000 rnd_half, Restart] fresh_runner) \<and>
   alive (runner_run [Frame 1000 rnd_half, Restart] fresh_runner) \<and>
   speed (runner_run [Frame 1000 rnd_half, Restart] fresh_runner) = 110 \<and>
   last (trace_r (runner_run [Frame 1000 rnd_half, Restart, Frame 6000 rnd_half] fresh_runner))
     = Draw 0 \<and>
   distance (runner_run [Frame 1000 rnd_half, Restart, Frame 6000 rnd_half] fresh_runner) = 0 \<and>
   min 0.05 ((6000 - 1000) / 1000) = (0.05 :: real)"
  by (simp add: runner_eval)

text \<open>
  Claim C9, amended. In every engine, a tick on which the update logic runs hands it the
  timestep \<open>frame_dt t l\<close>, where \<open>t\<close> is the timestamp of the tick and \<open>l\<close> the stored
  timestamp: Byte Runner hands it to \<open>update\<close> and \<open>draw\<close>, Neon Clicker to its passive
  income block, Glitch React to its countdown. When the stored timestamp is not \<open>0\<close>,
  this timestep is the minimum of \<open>0.05\<close> seconds and the elapsed time \<open>(t - l) / 1000\<close>;
  in particular it is exactly \<open>0.05\<close> when \<open>5000\<close> ms have elapsed. When the stored
  timestamp is \<open>0\<close>, as on the first tick after a mount or a restart, the timestep is \<open>0\<close>.
\<close>

theorem effective_timestep:
  "(running s \<and> \<not> paused_r s \<and> alive s \<longrightarrow>
      runner_loop t rnd s =
        draw (frame_dt t (lastT s))
          (runner_update (frame_dt t (lastT s)) rnd
             (s\<lparr>trace_r := trace_r s @ [RequestFrame], lastT := t\<rparr>))) \<and>
   (\<not> paused_c c \<longrightarrow>
      clicker_loop t c =
        passive_income (frame_dt t (last_c c))
          (c\<lparr>trace_c := trace_c c @ [RequestFrame], last_c := t\<rparr>)) \<and>
   (live g \<and> \<not> paused_g g \<longrightarrow>
      react_loop t g =
        countdown (frame_dt t (last_g g))
          (g\<lparr>trace_g := trace_g g @ [RequestFrame], last_g := t\<rparr>)) \<and>
   (l \<noteq> 0 \<longrightarrow> frame_dt t l = min 0.05 ((t - l) / 1000)) \<and>
   (l \<noteq> 0 \<and> t - l = 5000 \<longrightarrow> frame_dt t l = 0.05) \<and>
   frame_dt t 0 = 0"
proof -
  have 1: "running s \<and> \<not> paused_r s \<and> alive s \<longrightarrow>
      runner_loop t rnd s =
        draw (frame_dt t (lastT s))
          (runner_update (frame_dt t (lastT s)) rnd
             (s\<lparr>trace_r := trace_r s @ [RequestFrame], lastT := t\<rparr>))"
    using runner_loop_running [of s t rnd] by blast
  have 2: "\<not> paused_c c \<longrightarrow>
      clicker_loop t c =
        passive_income (frame_dt t (last_c c))
          (c\<lparr>trace_c := trace_c c @ [RequestFrame], last_c := t\<rparr>)"
    using clicker_loop_running [of c t] by blast
  have 3: "live g \<and> \<not> paused_g g \<longrightarrow>
      react_loop t g =
        countdown (frame_dt t (last_g g))
          (g\<lparr>trace_g := trace_g g @ [RequestFrame], last_g := t\<rparr>)"
    using react_loop_running [of g t] by blast
  have 4: "l \<noteq> 0 \<longrightarrow> frame_dt t l = min 0.05 ((t - l) / 1000)"
    by (simp add: frame_dt_def)
  have 5: "l \<noteq> 0 \<and> t - l = 5000 \<longrightarrow> frame_dt t l = 0.05"
    by (simp add: frame_dt_def)
  have 6: "frame_dt t 0 = 0"
    by (simp add: frame_dt_def)
  from 1 2 3 4 5 6 show ?thesis by blast
qed

text \<open>
  Each engine after a first frame at \<open>1000\<close> ms, given its next frame at \<open>6000\<close> ms: the
  update logic runs with \<open>dt = 0.05\<close>.
\<close>

theorem effective_timestep_witness:
  "running ticked_runner \<and> \<not> paused_r ticked_runner \<and> alive ticked_runner \<and>
   lastT ticked_runner \<noteq> 0 \<and> 6000 - lastT ticked_runner = 5000 \<and>
   runner_loop 6000 rnd_half ticked_runner =
     draw 0.05 (runner_update 0.05 rnd_half
       (ticked_runner\<lparr>trace_r := trace_r ticked_runner @ [RequestFrame], lastT := 6000\<rparr>)) \<and>
   \<not> paused_c ticked_clicker \<and> last_c ticked_clicker \<noteq> 0 \<and>
   6000 - last_c ticked_clicker = 5000 \<and>
   clicker_loop 6000 ticked_clicker =
     passive_income 0.05
       (ticked_clicker\<lparr>trace_c := trace_c ticked_clicker @ [RequestFrame], last_c := 6000\<rparr>) \<and>
   live ticked_react \<and> \<not> paused_g ticked_react \<and> last_g ticked_react \<noteq> 0 \<and>
   6000 - last_g ticked_react = 5000 \<and>
   react_loop 6000 ticked_react =
     countdown 0.05
       (ticked_react\<lparr>trace_g := trace_g ticked_react @ [RequestFrame], last_g := 6000\<rparr>)"
proof -
  have h1: "running ticked_runner \<and> \<not> paused_r ticked_runner \<and> alive ticked_runner \<and>
     lastT ticked_runner \<noteq> 0 \<and> 6000 - lastT ticked_runner = 5000"
    by (simp add: ticked_runner_def runner_eval)
  have h2: "\<not> paused_c ticked_clicker \<and> last_c ticked_clicker \<noteq> 0 \<and>
     6000 - last_c ticked_clicker = 5000"
    by (simp add: ticked_clicker_def clicker_loop_def passive_income_def createNeonClicker_def
        Let_def)
  have h3: "live ticked_react \<and> \<not> paused_g ticked_react \<and> last_g ticked_react \<noteq> 0 \<and>
     6000 - last_g ticked_react = 5000"
    by (simp add: ticked_react_def react_loop_def countdown_def start_def newTarget_def
        react_render_def createGlitchReact_def clamp_def Let_def)
  note a = effective_timestep [where s = ticked_runner and t = 6000 and rnd = rnd_half
      and c = ticked_clicker and g = ticked_react and l = "lastT ticked_runner"]
  note b = effective_timestep [where s = ticked_runner and t = 6000 and rnd = rnd_half
      and c = ticked_clicker and g = ticked_react and l = "last_c ticked_clicker"]
  note c = effective_timestep [where s = ticked_runner and t = 6000 and rnd = rnd_half
      and c = ticked_clicker and g = ticked_react and l = "last_g ticked_react"]
  from h1 a have d1: "frame_dt 6000 (lastT ticked_runner) = 0.05" by blast
  from h2 b have d2: "frame_dt 6000 (last_c ticked_clicker) = 0.05" by blast
  from h3 c have d3: "frame_dt 6000 (last_g ticked_react) = 0.05" by blast
  from h1 a have g1: "runner_loop 6000 rnd_half ticked_runner =
     draw 0.05 (runner_update 0.05 rnd_half
       (ticked_runner\<lparr>trace_r := trace_r ticked_runner @ [RequestFrame], lastT := 6000\<rparr>))"
    unfolding d1 by blast
  from h2 a have g2: "clicker_loop 6000 ticked_clicker =
     passive_income 0.05
       (ticked_clicker\<lparr>trace_c := trace_c ticked_clicker @ [RequestFrame], last_c := 6000\<rparr>)"
    unfolding d2 by blast
  from h3 a have g3: "react_loop 6000 ticked_react =
     countdown 0.05
       (ticked_react\<lparr>trace_g := trace_g ticked_react @ [RequestFrame], last_g := 6000\<rparr>)"
    unfolding d3 by blast
  from h1 h2 h3 g1 g2 g3 show ?thesis by blast
qed

end
